theory Spec2Isabelle
  imports Complex_Main "HOL-Library.Log_Nat"
begin

section \<open>Python values and builtins used by the monitor\<close>

text \<open>
  The script \<^verbatim>\<open>scripts/performance_monitor.py\<close> works on Python numbers. Counts
  (threads, handles, bytes) are Python ints and are modelled by \<^typ>\<open>int\<close> and
  \<^typ>\<open>nat\<close>. CPU percent, resident megabytes and clock readings are Python floats.
  Every finite float is a rational number, so a float is modelled by the \<^typ>\<open>rat\<close> it
  denotes and comparisons of floats are exact. Float arithmetic rounds: the two
  operations the script applies to floats, \<^verbatim>\<open>sum\<close> and \<^verbatim>\<open>/\<close>, are operations of the
  interpreter and are passed to the model as an \<open>arith\<close>. Infinities and NaN are not
  represented.
\<close>

datatype py_error =
    NoSuchProcess
  | AccessDenied
  | ZeroDivisionError
  | ValueError
  | AttributeError
  | TypeError
  | OSError
  | KeyboardInterrupt
  | SystemExit int

text \<open>
  The float arithmetic of the interpreter: \<^verbatim>\<open>sum(xs)\<close> of a sequence of floats, and
  \<^verbatim>\<open>a / b\<close> for a divisor other than 0 (true division, also of two ints).
\<close>

record arith =
  float_sum :: "rat list \<Rightarrow> rat"
  true_div :: "rat \<Rightarrow> rat \<Rightarrow> rat"

text \<open>
  Binary64 arithmetic with rounding to nearest, ties to even, and an unbounded exponent:
  \<open>binade x\<close> is the exponent \<open>e\<close> with \<open>2^e \<le> |x| < 2^(e+1)\<close>, and \<open>round_double\<close>
  keeps 53 significant bits. \<open>ieee\<close> divides with one rounding and sums from left to
  right with one rounding for each addition, as CPython does up to version 3.11 (later
  versions carry a correction term along the sum).
\<close>

definition round_half_even :: "rat \<Rightarrow> int" where
  "round_half_even y =
     (let f = \<lfloor>y\<rfloor>; r = y - of_int f
      in if r < 1 / 2 then f else if 1 / 2 < r then f + 1 else if even f then f else f + 1)"

definition binade :: "rat \<Rightarrow> int" where
  "binade x =
     (case quotient_of \<bar>x\<bar> of
        (p, q) \<Rightarrow> (let k = bitlen p - bitlen q in if 2 powi k \<le> \<bar>x\<bar> then k else k - 1))"

definition round_double :: "rat \<Rightarrow> rat" where
  "round_double x =
     (if x = 0 then 0
      else (let s = 2 powi (52 - binade x)
            in sgn x * of_int (round_half_even (\<bar>x\<bar> * s)) / s))"

definition ieee :: arith where
  "ieee =
     \<lparr>float_sum = foldl (\<lambda>a x. round_double (a + x)) 0,
      true_div = (\<lambda>a b. round_double (a / b))\<rparr>"

text \<open>\<^verbatim>\<open>sum(xs)\<close> of Python ints: starts at 0 and adds the items from left to right,
  exactly.\<close>

definition py_sum :: "'a::{zero,plus} list \<Rightarrow> 'a" where
  "py_sum xs = foldl (+) 0 xs"

text \<open>
  \<^verbatim>\<open>max(xs)\<close>: raises ValueError on an empty iterable; otherwise keeps the first
  item and replaces it by every later item that is strictly greater.
\<close>

definition py_max :: "'a::linorder list \<Rightarrow> py_error + 'a" where
  "py_max xs =
     (case xs of
        [] \<Rightarrow> Inl ValueError
      | x # ys \<Rightarrow> Inr (foldl (\<lambda>m v. if v > m then v else m) x ys))"

text \<open>\<^verbatim>\<open>a / b\<close> on numbers: ZeroDivisionError when the divisor is 0, the rounded
  quotient otherwise.\<close>

definition py_truediv :: "arith \<Rightarrow> rat \<Rightarrow> rat \<Rightarrow> py_error + rat" where
  "py_truediv ar a b = (if b = 0 then Inl ZeroDivisionError else Inr (true_div ar a b))"

text \<open>\<^verbatim>\<open>list(xs)[-10:]\<close>: the last ten items, or all of them when there are fewer.\<close>

definition last10 :: "'a list \<Rightarrow> 'a list" where
  "last10 xs = drop (length xs - 10) xs"

text \<open>
  \<^verbatim>\<open>collections.deque(maxlen=n)\<close>, as the list of its items from left to right.
  \<^verbatim>\<open>append\<close> adds the item on the right and, when the deque then holds more than
  \<open>maxlen\<close> items, discards one from the left.
\<close>

definition deque_append :: "nat \<Rightarrow> 'a list \<Rightarrow> 'a \<Rightarrow> 'a list" where
  "deque_append maxlen d x =
     (let d' = d @ [x] in if length d' > maxlen then tl d' else d')"

text \<open>
  Strings. \<^verbatim>\<open>s.lower()\<close> on the ASCII letters (other characters are kept),
  \<^verbatim>\<open>sub in s\<close> for substrings, and \<^verbatim>\<open>' '.join(xs)\<close>.
\<close>

definition ascii_lower :: "char \<Rightarrow> char" where
  "ascii_lower c =
     (case map_of (zip ''ABCDEFGHIJKLMNOPQRSTUVWXYZ'' ''abcdefghijklmnopqrstuvwxyz'') c of
        Some l \<Rightarrow> l
      | None \<Rightarrow> c)"

definition py_lower :: "string \<Rightarrow> string" where
  "py_lower s = map ascii_lower s"

fun starts_with :: "'a list \<Rightarrow> 'a list \<Rightarrow> bool" where
  "starts_with s [] = True"
| "starts_with [] (c # sub) = False"
| "starts_with (d # s) (c # sub) = (d = c \<and> starts_with s sub)"

fun py_in :: "'a list \<Rightarrow> 'a list \<Rightarrow> bool" where
  "py_in sub [] = (sub = [])"
| "py_in sub (c # s) = (starts_with (c # s) sub \<or> py_in sub s)"

fun join_space :: "string list \<Rightarrow> string" where
  "join_space [] = []"
| "join_space [x] = x"
| "join_space (x # y # ys) = x @ '' '' @ join_space (y # ys)"

section \<open>The data of the monitor\<close>

text \<open>
  A process handle of \<^verbatim>\<open>psutil\<close>. The attribute \<^verbatim>\<open>info\<close> is a dictionary that
  \<^verbatim>\<open>psutil.process_iter\<close> attaches to the handles it yields; a handle made by
  \<^verbatim>\<open>psutil.Process(pid)\<close> has no such attribute (None here). An entry of the
  dictionary is missing, is Python's None (what \<^verbatim>\<open>process_iter\<close> stores when access is
  denied), or has a value.
\<close>

datatype 'a entry = Missing | IsNone | Has 'a

record proc_info =
  info_name :: "string entry"
  info_cmdline :: "string list entry"

record proc =
  proc_pid :: nat
  info :: "proc_info option"

text \<open>The dictionary \<^verbatim>\<open>self.thresholds\<close>: four fixed keys, never written after
  \<^verbatim>\<open>__init__\<close>.\<close>

record limits =
  limit_cpu_percent :: rat
  limit_memory_mb :: rat
  limit_audio_latency_ms :: rat
  limit_thread_count :: int

text \<open>The dictionary returned by a successful \<^verbatim>\<open>collect_metrics\<close>.\<close>

record metrics =
  timestamp :: string
  cpu_percent :: rat
  memory_mb :: rat
  memory_percent :: rat
  thread_count :: int
  handle_count :: int
  read_bytes :: nat
  write_bytes :: nat

text \<open>The fields of a \<^verbatim>\<open>PerformanceMonitor\<close> object. Every history is a deque whose
  \<open>maxlen\<close> is \<open>history_size\<close>.\<close>

record monitor =
  pid :: "nat option"
  process :: "proc option"
  history_size :: nat
  cpu_history :: "rat list"
  memory_history :: "rat list"
  thread_count_history :: "int list"
  handle_count_history :: "int list"
  time_history :: "rat list"
  audio_latency_history :: "rat list"
  xrun_count :: int
  frame_drops :: int
  thresholds :: limits

text \<open>One entry of \<^verbatim>\<open>data['metrics']\<close> in \<^verbatim>\<open>save_metrics\<close>.\<close>

record 'a stats =
  history :: "'a list"
  average :: rat
  peak :: 'a

record violation_counts =
  cpu_exceeded :: nat
  memory_exceeded :: nat
  thread_exceeded :: nat

text \<open>The dictionary \<^verbatim>\<open>data\<close> that \<^verbatim>\<open>save_metrics\<close> dumps as JSON.\<close>

record snapshot =
  process_id :: "nat option"
  process_name :: string
  monitoring_duration :: nat
  cpu :: "rat stats"
  memory :: "rat stats"
  threads :: "int stats"
  saved_thresholds :: limits
  violations :: violation_counts

text \<open>The text block drawn in the fourth panel by \<^verbatim>\<open>plot_realtime\<close>.\<close>

record chart =
  chart_cpu :: rat
  chart_memory :: rat
  chart_threads :: int
  chart_handles :: int
  chart_avg_cpu :: rat
  chart_avg_memory :: rat

text \<open>
  What the program prints, by the holes of each format string (number formatting is not
  modelled), and the other effects seen from outside: a file written, a chart drawn.
\<close>
datatype line =
    WarnNotRusty nat
  | ErrorNoPid nat
  | FoundProcess nat
  | ErrorNotFound
  | StartOrSpecify
  | ErrorCollecting py_error
  | HighCPU rat rat
  | HighMemory rat rat
  | HighThreadCount int int
  | TimestampLine string
  | StatusLine rat rat rat int int
  | AverageLine rat rat
  | MetricsSaved string
  | RequiresMatplotlib
  | BenchmarkStarting
  | BenchmarkResults string
  | StoppedByUser
  | SummaryHeader
  | CpuAverage rat
  | CpuPeak rat
  | MemoryAverage rat
  | MemoryPeak rat
  | ViolationsHeader
  | CpuViolations rat nat
  | MemoryViolations rat nat
  | ThreadViolations int nat

datatype event = Print line | WriteFile string snapshot | Draw chart

section \<open>Construction and process resolution\<close>

text \<open>
  \<^verbatim>\<open>_is_rusty_audio_process\<close>. Reading \<^verbatim>\<open>proc.info\<close> on a handle without that
  attribute raises AttributeError, as does \<^verbatim>\<open>.lower()\<close> on a name that is None;
  \<^verbatim>\<open>' '.join\<close> of a command line that is None raises TypeError. Nothing in the body
  raises the two \<^verbatim>\<open>psutil\<close> exceptions that its \<^verbatim>\<open>except\<close> clause names.
\<close>

definition is_rusty_audio_process :: "proc \<Rightarrow> py_error + bool" where
  "is_rusty_audio_process pr =
     (case info pr of
        None \<Rightarrow> Inl AttributeError
      | Some d \<Rightarrow>
          (case info_name d of
             IsNone \<Rightarrow> Inl AttributeError
           | nm \<Rightarrow>
               (let name = py_lower (case nm of Has s \<Rightarrow> s | _ \<Rightarrow> [])
                in case info_cmdline d of
                     IsNone \<Rightarrow> Inl TypeError
                   | cl \<Rightarrow>
                       (let cmdline =
                              py_lower (join_space (case cl of Has xs \<Rightarrow> xs | _ \<Rightarrow> []))
                        in Inr (py_in ''rusty'' name \<or> py_in ''rusty-audio'' cmdline \<or>
                                py_in ''rusty_audio'' name)))))"

text \<open>What \<^verbatim>\<open>psutil\<close> shows when \<^verbatim>\<open>_find_process\<close> runs: the result of
  \<^verbatim>\<open>psutil.Process(pid)\<close> (None for NoSuchProcess) and the handles that
  \<^verbatim>\<open>psutil.process_iter\<close> yields.\<close>

record os_view =
  lookup :: "nat \<Rightarrow> proc option"
  process_iter :: "proc list"

text \<open>The \<^verbatim>\<open>for\<close> loop of \<^verbatim>\<open>_find_process\<close>: the first handle that the test accepts,
  unless the test raises before.\<close>

fun first_rusty :: "proc list \<Rightarrow> py_error + proc option" where
  "first_rusty [] = Inr None"
| "first_rusty (pr # prs) =
     (case is_rusty_audio_process pr of
        Inl e \<Rightarrow> Inl e
      | Inr b \<Rightarrow> (if b then Inr (Some pr) else first_rusty prs))"

text \<open>
  \<^verbatim>\<open>_find_process\<close>. \<^verbatim>\<open>if self.pid\<close> is false for None and for 0. With a PID,
  \<^verbatim>\<open>self.process\<close> is assigned before the test runs, and only NoSuchProcess is
  caught. \<^verbatim>\<open>sys.exit(1)\<close> raises SystemExit.
\<close>

definition find_process :: "os_view \<Rightarrow> monitor \<Rightarrow> py_error option \<times> monitor \<times> event list" where
  "find_process os m =
     (case (if pid m = Some 0 then None else pid m) of
        Some p \<Rightarrow>
          (case lookup os p of
             None \<Rightarrow> (Some (SystemExit 1), m, [Print (ErrorNoPid p)])
           | Some pr \<Rightarrow>
               (case is_rusty_audio_process pr of
                  Inl e \<Rightarrow> (Some e, m\<lparr>process := Some pr\<rparr>, [])
                | Inr b \<Rightarrow>
                    (None, m\<lparr>process := Some pr\<rparr>,
                     if b then [] else [Print (WarnNotRusty p)])))
      | None \<Rightarrow>
          (case first_rusty (process_iter os) of
             Inl e \<Rightarrow> (Some e, m, [])
           | Inr (Some pr) \<Rightarrow>
               (None, m\<lparr>process := Some pr, pid := Some (proc_pid pr)\<rparr>,
                [Print (FoundProcess (proc_pid pr))])
           | Inr None \<Rightarrow>
               (if process m = None
                then (Some (SystemExit 1), m, [Print ErrorNotFound, Print StartOrSpecify])
                else (None, m, []))))"

definition default_thresholds :: limits where
  "default_thresholds =
     \<lparr>limit_cpu_percent = 25, limit_memory_mb = 500,
      limit_audio_latency_ms = 10, limit_thread_count = 20\<rparr>"

text \<open>The assignments of \<^verbatim>\<open>__init__\<close> before its call of \<^verbatim>\<open>_find_process\<close>.\<close>

definition init_fields :: "nat option \<Rightarrow> nat \<Rightarrow> monitor" where
  "init_fields p hsize =
     \<lparr>pid = p, process = None, history_size = hsize,
      cpu_history = [], memory_history = [], thread_count_history = [],
      handle_count_history = [], time_history = [], audio_latency_history = [],
      xrun_count = 0, frame_drops = 0, thresholds = default_thresholds\<rparr>"

definition PerformanceMonitor ::
  "os_view \<Rightarrow> nat option \<Rightarrow> nat \<Rightarrow> py_error option \<times> monitor \<times> event list" where
  "PerformanceMonitor os p hsize = find_process os (init_fields p hsize)"

section \<open>Sampling\<close>

text \<open>
  What one call of \<^verbatim>\<open>collect_metrics\<close> meets outside: whether the process is
  running, what a new resolution would see, and the result of each read of the process.
  The reads of the thread count, the handle count and the I/O counters sit under a bare
  \<^verbatim>\<open>except:\<close>, so their only failure value is None. A KeyboardInterrupt can also
  arrive between two statements: \<open>interrupt_after = Some k\<close> delivers it in the block
  "Update history" when \<open>k\<close> of its five \<^verbatim>\<open>append\<close> statements have run (after the
  last one for \<open>k \<ge> 5\<close>). An interrupt during a read is a read that raises
  KeyboardInterrupt.
\<close>

record probe =
  running :: bool
  view :: os_view
  cpu_percent_read :: "py_error + rat"
  rss_read :: "py_error + nat"
  num_threads_read :: "int option"
  win32 :: bool
  num_handles_read :: "int option"
  io_counters_read :: "(nat \<times> nat) option"
  memory_percent_read :: "py_error + rat"
  now_iso :: string
  time_now :: rat
  interrupt_after :: "nat option"

text \<open>\<^verbatim>\<open>_check_thresholds\<close>: the warnings it prints, in the order it builds them.\<close>

definition check_thresholds :: "monitor \<Rightarrow> metrics \<Rightarrow> event list" where
  "check_thresholds m ms =
     (if cpu_percent ms > limit_cpu_percent (thresholds m)
      then [Print (HighCPU (cpu_percent ms) (limit_cpu_percent (thresholds m)))] else []) @
     (if memory_mb ms > limit_memory_mb (thresholds m)
      then [Print (HighMemory (memory_mb ms) (limit_memory_mb (thresholds m)))] else []) @
     (if thread_count ms > limit_thread_count (thresholds m)
      then [Print (HighThreadCount (thread_count ms) (limit_thread_count (thresholds m)))]
      else [])"

text \<open>The five statements of the block "Update history" of \<^verbatim>\<open>collect_metrics\<close>, in
  the order of the source.\<close>

definition history_appends :: "metrics \<Rightarrow> rat \<Rightarrow> (monitor \<Rightarrow> monitor) list" where
  "history_appends ms current_time =
     [\<lambda>m. m\<lparr>cpu_history := deque_append (history_size m) (cpu_history m) (cpu_percent ms)\<rparr>,
      \<lambda>m. m\<lparr>memory_history := deque_append (history_size m) (memory_history m) (memory_mb ms)\<rparr>,
      \<lambda>m. m\<lparr>thread_count_history :=
               deque_append (history_size m) (thread_count_history m) (thread_count ms)\<rparr>,
      \<lambda>m. m\<lparr>handle_count_history :=
               deque_append (history_size m) (handle_count_history m) (handle_count ms)\<rparr>,
      \<lambda>m. m\<lparr>time_history := deque_append (history_size m) (time_history m) current_time\<rparr>]"

definition run_statements :: "(monitor \<Rightarrow> monitor) list \<Rightarrow> monitor \<Rightarrow> monitor" where
  "run_statements stmts m = foldl (\<lambda>m stmt. stmt m) m stmts"

text \<open>The whole block, run without interruption.\<close>

definition update_history :: "monitor \<Rightarrow> metrics \<Rightarrow> rat \<Rightarrow> monitor" where
  "update_history m ms current_time = run_statements (history_appends ms current_time) m"

text \<open>
  The reads inside the \<^verbatim>\<open>try\<close> of \<^verbatim>\<open>collect_metrics\<close>, in the order the code makes
  them; the first one that raises ends the block.
\<close>

definition read_metrics :: "arith \<Rightarrow> probe \<Rightarrow> py_error + metrics" where
  "read_metrics ar p =
     (case cpu_percent_read p of
        Inl e \<Rightarrow> Inl e
      | Inr c \<Rightarrow>
     (case rss_read p of
        Inl e \<Rightarrow> Inl e
      | Inr rss \<Rightarrow>
     (case memory_percent_read p of
        Inl e \<Rightarrow> Inl e
      | Inr mp \<Rightarrow>
          Inr \<lparr>timestamp = now_iso p,
               cpu_percent = c,
               memory_mb = true_div ar (of_nat rss) (1024 * 1024),
               memory_percent = mp,
               thread_count = (case num_threads_read p of Some t \<Rightarrow> t | None \<Rightarrow> 0),
               handle_count =
                 (if win32 p then (case num_handles_read p of Some h \<Rightarrow> h | None \<Rightarrow> 0)
                  else 0),
               read_bytes = (case io_counters_read p of Some (r, w) \<Rightarrow> r | None \<Rightarrow> 0),
               write_bytes = (case io_counters_read p of Some (r, w) \<Rightarrow> w | None \<Rightarrow> 0)\<rparr>)))"

text \<open>
  The \<^verbatim>\<open>try\<close> statement of \<^verbatim>\<open>collect_metrics\<close>: NoSuchProcess and AccessDenied
  are caught (the error is printed and \<^verbatim>\<open>{}\<close>, here None, is returned); any other
  exception leaves the function, with the histories as the statements run so far have
  left them.
\<close>

definition sample ::
  "arith \<Rightarrow> monitor \<Rightarrow> probe \<Rightarrow> (py_error + metrics option) \<times> monitor \<times> event list" where
  "sample ar m p =
     (case read_metrics ar p of
        Inl e \<Rightarrow>
          (if e = NoSuchProcess \<or> e = AccessDenied
           then (Inr None, m, [Print (ErrorCollecting e)])
           else (Inl e, m, []))
      | Inr ms \<Rightarrow>
          (case interrupt_after p of
             Some k \<Rightarrow>
               (Inl KeyboardInterrupt,
                run_statements (take k (history_appends ms (time_now p))) m, [])
           | None \<Rightarrow>
               (let m' = update_history m ms (time_now p)
                in (Inr (Some ms), m', check_thresholds m' ms))))"

definition collect_metrics ::
  "arith \<Rightarrow> monitor \<Rightarrow> probe \<Rightarrow> (py_error + metrics option) \<times> monitor \<times> event list" where
  "collect_metrics ar m p =
     (if process m = None \<or> \<not> running p
      then (case find_process (view p) m of
              (Some e, m', out) \<Rightarrow> (Inl e, m', out)
            | (None, m', out) \<Rightarrow>
                (case sample ar m' p of (r, m'', out') \<Rightarrow> (r, m'', out @ out')))
      else sample ar m p)"

section \<open>Console output of one tick\<close>

text \<open>
  \<^verbatim>\<open>print_metrics\<close>: nothing for the empty dictionary; otherwise the timestamp,
  the status line and, under the guard \<^verbatim>\<open>len(self.cpu_history) >= 10\<close>, the line of
  averages over the last ten entries, each sum divided by the literal 10.
\<close>

definition print_metrics :: "arith \<Rightarrow> monitor \<Rightarrow> metrics option \<Rightarrow> event list" where
  "print_metrics ar m r =
     (case r of
        None \<Rightarrow> []
      | Some ms \<Rightarrow>
          [Print (TimestampLine (timestamp ms)),
           Print (StatusLine (cpu_percent ms) (memory_mb ms) (memory_percent ms)
                    (thread_count ms) (handle_count ms))] @
          (if length (cpu_history m) \<ge> 10
           then [Print (AverageLine (true_div ar (float_sum ar (last10 (cpu_history m))) 10)
                          (true_div ar (float_sum ar (last10 (memory_history m))) 10))]
           else []))"

section \<open>Violation counters and the saved snapshot\<close>

text \<open>\<^verbatim>\<open>_get_threshold_violations\<close>: each counter is
  \<^verbatim>\<open>sum(1 for x in history if x > limit)\<close>.\<close>

definition count_exceeding :: "'a::linorder \<Rightarrow> 'a list \<Rightarrow> nat" where
  "count_exceeding limit h = py_sum (map (\<lambda>x. 1) (filter (\<lambda>x. x > limit) h))"

definition get_threshold_violations :: "monitor \<Rightarrow> violation_counts" where
  "get_threshold_violations m =
     \<lparr>cpu_exceeded = count_exceeding (limit_cpu_percent (thresholds m)) (cpu_history m),
      memory_exceeded = count_exceeding (limit_memory_mb (thresholds m)) (memory_history m),
      thread_exceeded =
        count_exceeding (limit_thread_count (thresholds m)) (thread_count_history m)\<rparr>"
text \<open>
  One block of \<^verbatim>\<open>data['metrics']\<close>:
  \<^verbatim>\<open>'average': sum(h) / len(h) if h else 0\<close> and \<^verbatim>\<open>'peak': max(h) if h else 0\<close>.
  The second argument is \<^verbatim>\<open>sum\<close> on the items of the history: the float sum for
  floats, the exact sum for ints.
\<close>

definition stats_of ::
  "arith \<Rightarrow> ('a list \<Rightarrow> rat) \<Rightarrow> 'a::{linorder,zero} list \<Rightarrow> py_error + 'a stats" where
  "stats_of ar sum_of h =
     (case (if h \<noteq> [] then py_truediv ar (sum_of h) (of_nat (length h)) else Inr 0) of
        Inl e \<Rightarrow> Inl e
      | Inr a \<Rightarrow>
     (case (if h \<noteq> [] then py_max h else Inr 0) of
        Inl e \<Rightarrow> Inl e
      | Inr p \<Rightarrow> Inr \<lparr>history = h, average = a, peak = p\<rparr>))"

text \<open>What \<^verbatim>\<open>save_metrics\<close> meets outside: the result of \<^verbatim>\<open>self.process.name()\<close>
  and whether \<^verbatim>\<open>open(filename, 'w')\<close> raises.\<close>

record save_env =
  name_read :: "py_error + string"
  open_error :: "py_error option"

definition build_data :: "arith \<Rightarrow> save_env \<Rightarrow> monitor \<Rightarrow> py_error + snapshot" where
  "build_data ar env m =
     (case (case process m of Some pr \<Rightarrow> name_read env | None \<Rightarrow> Inr ''unknown'') of
        Inl e \<Rightarrow> Inl e
      | Inr nm \<Rightarrow>
     (case stats_of ar (float_sum ar) (cpu_history m) of
        Inl e \<Rightarrow> Inl e
      | Inr c \<Rightarrow>
     (case stats_of ar (float_sum ar) (memory_history m) of
        Inl e \<Rightarrow> Inl e
      | Inr mem \<Rightarrow>
     (case stats_of ar (\<lambda>h. of_int (py_sum h)) (thread_count_history m) of
        Inl e \<Rightarrow> Inl e
      | Inr thr \<Rightarrow>
          Inr \<lparr>process_id = pid m,
               process_name = nm,
               monitoring_duration = length (time_history m),
               cpu = c, memory = mem, threads = thr,
               saved_thresholds = thresholds m,
               violations = get_threshold_violations m\<rparr>))))"

definition save_metrics ::
  "arith \<Rightarrow> save_env \<Rightarrow> monitor \<Rightarrow> string \<Rightarrow> py_error option \<times> event list" where
  "save_metrics ar env m filename =
     (case build_data ar env m of
        Inl e \<Rightarrow> (Some e, [])
      | Inr data \<Rightarrow>
          (case open_error env of
             Some e \<Rightarrow> (Some e, [])
           | None \<Rightarrow> (None, [WriteFile filename data, Print (MetricsSaved filename)])))"

section \<open>The live chart\<close>

text \<open>
  The callback \<^verbatim>\<open>animate\<close> of \<^verbatim>\<open>plot_realtime\<close>: it samples, returns at once on the
  empty dictionary, and otherwise draws; the averages of its summary divide the sum of
  the last ten entries by \<^verbatim>\<open>min(10, len(history))\<close>.
\<close>

definition animate :: "arith \<Rightarrow> monitor \<Rightarrow> probe \<Rightarrow> py_error option \<times> monitor \<times> event list" where
  "animate ar m p =
     (case collect_metrics ar m p of
        (Inl e, m', out) \<Rightarrow> (Some e, m', out)
      | (Inr None, m', out) \<Rightarrow> (None, m', out)
      | (Inr (Some ms), m', out) \<Rightarrow>
          (case py_truediv ar (float_sum ar (last10 (cpu_history m')))
                  (of_nat (min 10 (length (cpu_history m')))) of
             Inl e \<Rightarrow> (Some e, m', out)
           | Inr avg_cpu \<Rightarrow>
          (case py_truediv ar (float_sum ar (last10 (memory_history m')))
                  (of_nat (min 10 (length (memory_history m')))) of
             Inl e \<Rightarrow> (Some e, m', out)
           | Inr avg_memory \<Rightarrow>
               (None, m',
                out @ [Draw \<lparr>chart_cpu = cpu_percent ms, chart_memory = memory_mb ms,
                             chart_threads = thread_count ms, chart_handles = handle_count ms,
                             chart_avg_cpu = avg_cpu, chart_avg_memory = avg_memory\<rparr>]))))"

text \<open>
  The frames are the timer callbacks that run before the window is closed, when
  \<^verbatim>\<open>plt.show()\<close> returns. An exception in a callback is taken to end the display.
\<close>

fun run_frames ::
  "arith \<Rightarrow> monitor \<Rightarrow> probe list \<Rightarrow> py_error option \<times> monitor \<times> event list" where
  "run_frames ar m [] = (None, m, [])"
| "run_frames ar m (p # ps) =
     (case animate ar m p of
        (Some e, m', out) \<Rightarrow> (Some e, m', out)
      | (None, m', out) \<Rightarrow>
          (case run_frames ar m' ps of (r, m'', out') \<Rightarrow> (r, m'', out @ out')))"

definition plot_realtime ::
  "arith \<Rightarrow> bool \<Rightarrow> monitor \<Rightarrow> probe list \<Rightarrow> py_error option \<times> monitor \<times> event list" where
  "plot_realtime ar has_matplotlib m fs =
     (if \<not> has_matplotlib then (None, m, [Print RequiresMatplotlib]) else run_frames ar m fs)"

section \<open>The main program\<close>

record args =
  arg_pid :: "nat option"
  duration :: int
  interval :: rat
  plot :: bool
  benchmark :: bool
  arg_output :: string

text \<open>
  One iteration of the sampling loop: what the sampling meets, the value of
  \<^verbatim>\<open>time.time() - start_time\<close> at the duration test, and whether a KeyboardInterrupt
  arrives during \<^verbatim>\<open>time.sleep\<close>.
\<close>

record tick =
  tick_probe :: probe
  elapsed :: rat
  sleep_interrupted :: bool

text \<open>
  The \<^verbatim>\<open>while True\<close> loop of \<^verbatim>\<open>main\<close> over a script of ticks. It leaves by
  \<^verbatim>\<open>break\<close> (no exception) or by an exception. None: the script ended and the loop is
  still running.
\<close>

fun console_loop ::
  "arith \<Rightarrow> args \<Rightarrow> monitor \<Rightarrow> tick list \<Rightarrow>
   (py_error option \<times> monitor \<times> event list) option" where
  "console_loop ar a m [] = None"
| "console_loop ar a m (t # ts) =
     (case collect_metrics ar m (tick_probe t) of
        (Inl e, m', out) \<Rightarrow> Some (Some e, m', out)
      | (Inr r, m', out) \<Rightarrow>
          (let out' = out @ print_metrics ar m' r in
           if duration a > 0 \<and> elapsed t \<ge> of_int (duration a) then Some (None, m', out')
           else if sleep_interrupted t then Some (Some KeyboardInterrupt, m', out')
           else (case console_loop ar a m' ts of
                   None \<Rightarrow> None
                 | Some (r', m'', out'') \<Rightarrow> Some (r', m'', out' @ out''))))"

text \<open>The summary printed in the \<^verbatim>\<open>finally\<close> block of \<^verbatim>\<open>main\<close>, line by line; an
  expression that raises ends it.\<close>

definition print_summary :: "arith \<Rightarrow> monitor \<Rightarrow> py_error option \<times> event list" where
  "print_summary ar m =
     (let v = get_threshold_violations m in
      case py_truediv ar (float_sum ar (cpu_history m)) (of_nat (length (cpu_history m))) of
        Inl e \<Rightarrow> (Some e, [Print SummaryHeader])
      | Inr ca \<Rightarrow>
     (case py_max (cpu_history m) of
        Inl e \<Rightarrow> (Some e, [Print SummaryHeader, Print (CpuAverage ca)])
      | Inr cp \<Rightarrow>
     (case py_truediv ar (float_sum ar (memory_history m))
             (of_nat (length (memory_history m))) of
        Inl e \<Rightarrow> (Some e, [Print SummaryHeader, Print (CpuAverage ca), Print (CpuPeak cp)])
      | Inr ma \<Rightarrow>
     (case py_max (memory_history m) of
        Inl e \<Rightarrow>
          (Some e, [Print SummaryHeader, Print (CpuAverage ca), Print (CpuPeak cp),
                    Print (MemoryAverage ma)])
      | Inr mp \<Rightarrow>
          (None,
           [Print SummaryHeader, Print (CpuAverage ca), Print (CpuPeak cp),
            Print (MemoryAverage ma), Print (MemoryPeak mp), Print ViolationsHeader,
            Print (CpuViolations (limit_cpu_percent (thresholds m)) (cpu_exceeded v)),
            Print (MemoryViolations (limit_memory_mb (thresholds m)) (memory_exceeded v)),
            Print (ThreadViolations (limit_thread_count (thresholds m))
                     (thread_exceeded v))])))))"

text \<open>
  The \<^verbatim>\<open>except KeyboardInterrupt\<close> and \<^verbatim>\<open>finally\<close> clauses of \<^verbatim>\<open>main\<close>, entered
  with the exception that left the loop, if any. A KeyboardInterrupt is handled; any
  other exception stays pending and is raised again after the \<^verbatim>\<open>finally\<close> block,
  unless that block raises itself.
\<close>

definition finalize ::
  "arith \<Rightarrow> args \<Rightarrow> save_env \<Rightarrow> monitor \<Rightarrow> py_error option \<Rightarrow>
   py_error option \<times> event list" where
  "finalize ar a env m raised =
     (let pending = (if raised = Some KeyboardInterrupt then None else raised);
          out0 = (if raised = Some KeyboardInterrupt then [Print StoppedByUser] else [])
      in case save_metrics ar env m (arg_output a) of
           (Some e, out1) \<Rightarrow> (Some e, out0 @ out1)
         | (None, out1) \<Rightarrow>
             (case print_summary ar m of
                (Some e, out2) \<Rightarrow> (Some e, out0 @ out1 @ out2)
              | (None, out2) \<Rightarrow> (pending, out0 @ out1 @ out2)))"

text \<open>
  Everything outside the program during one run: the float arithmetic of the
  interpreter, whether matplotlib was imported, what process resolution sees at
  startup, the ticks of the sampling loop, the frames of the chart, what
  \<^verbatim>\<open>save_metrics\<close> meets, and the benchmark subprocess.
\<close>

record world =
  float_ops :: arith
  HAS_MATPLOTLIB :: bool
  startup :: os_view
  ticks :: "tick list"
  frames :: "probe list"
  at_exit :: save_env
  bench_pid :: nat
  bench_stdout :: string

text \<open>
  The loop of \<^verbatim>\<open>run_benchmark_and_monitor\<close>: one tick for every iteration in which
  \<^verbatim>\<open>benchmark_proc.poll()\<close> is None; the script ends when the benchmark has ended.
\<close>

fun bench_loop ::
  "arith \<Rightarrow> monitor \<Rightarrow> tick list \<Rightarrow> py_error option \<times> monitor \<times> event list" where
  "bench_loop ar m [] = (None, m, [])"
| "bench_loop ar m (t # ts) =
     (case collect_metrics ar m (tick_probe t) of
        (Inl e, m', out) \<Rightarrow> (Some e, m', out)
      | (Inr r, m', out) \<Rightarrow>
          (let out' = out @ print_metrics ar m' r in
           if sleep_interrupted t then (Some KeyboardInterrupt, m', out')
           else (case bench_loop ar m' ts of (r', m'', out'') \<Rightarrow> (r', m'', out' @ out''))))"

definition run_benchmark_and_monitor :: "world \<Rightarrow> py_error option \<times> event list" where
  "run_benchmark_and_monitor w =
     (case PerformanceMonitor (startup w) (Some (bench_pid w)) 100 of
        (Some e, m, out) \<Rightarrow> (Some e, Print BenchmarkStarting # out)
      | (None, m, out) \<Rightarrow>
          (case bench_loop (float_ops w) m (ticks w) of
             (r, m', out') \<Rightarrow>
               (if r = None \<or> r = Some KeyboardInterrupt
                then (case save_metrics (float_ops w) (at_exit w) m'
                             ''benchmark_performance.json'' of
                        (r', out'') \<Rightarrow>
                          (r', Print BenchmarkStarting # out @ out' @
                               [Print (BenchmarkResults (bench_stdout w))] @ out''))
                else (r, Print BenchmarkStarting # out @ out'))))"

text \<open>
  \<^verbatim>\<open>main\<close>, after argument parsing. The result is the exception that ends the
  program, if any (SystemExit 1 is the exit status 1), and what it printed, wrote and
  drew. None: the sampling loop outlives the script of ticks.
\<close>

definition main :: "args \<Rightarrow> world \<Rightarrow> (py_error option \<times> event list) option" where
  "main a w =
     (if benchmark a then Some (run_benchmark_and_monitor w)
      else
        (case PerformanceMonitor (startup w) (arg_pid a) 100 of
           (Some e, m, out) \<Rightarrow> Some (Some e, out)
         | (None, m, out) \<Rightarrow>
             (if plot a \<and> HAS_MATPLOTLIB w
              then (case plot_realtime (float_ops w) (HAS_MATPLOTLIB w) m (frames w) of
                      (r, m', out') \<Rightarrow> Some (r, out @ out'))
              else (case console_loop (float_ops w) a m (ticks w) of
                      None \<Rightarrow> None
                    | Some (r, m', out') \<Rightarrow>
                        (case finalize (float_ops w) a (at_exit w) m' r of
                           (r', out'') \<Rightarrow> Some (r', out @ out' @ out''))))))"

section \<open>Notions of the specification\<close>

text \<open>The arithmetic mean of a list of values, as the specification words it, and the
  mean as the interpreter computes it: the float sum divided by the length.\<close>

definition arithmetic_mean :: "rat list \<Rightarrow> rat" where
  "arithmetic_mean xs = sum_list xs / of_nat (length xs)"

definition float_mean :: "arith \<Rightarrow> rat list \<Rightarrow> rat" where
  "float_mean ar xs = true_div ar (float_sum ar xs) (of_nat (length xs))"

text \<open>
  Floating-point tolerance. An arithmetic is accurate to the unit roundoff \<open>u\<close>
  (\<open>2^-53\<close> for binary64) when a division is off by at most the fraction \<open>u\<close> of the
  quotient and a sum of \<open>n\<close> items by at most the fraction \<open>(1 + u)^n - 1\<close> of the sum
  of their magnitudes, the error bound of adding from left to right. The tolerance of a
  mean of \<open>n\<close> items is the fraction \<open>(1 + u)^(n + 1) - 1\<close> of the mean magnitude.
\<close>

definition accurate :: "rat \<Rightarrow> arith \<Rightarrow> bool" where
  "accurate u ar =
     (0 \<le> u \<and>
      (\<forall>xs. \<bar>float_sum ar xs - sum_list xs\<bar> \<le>
              ((1 + u) ^ length xs - 1) * sum_list (map abs xs)) \<and>
      (\<forall>a b. b \<noteq> 0 \<longrightarrow> \<bar>true_div ar a b - a / b\<bar> \<le> u * \<bar>a / b\<bar>))"

definition tolerance :: "rat \<Rightarrow> rat list \<Rightarrow> rat" where
  "tolerance u xs = ((1 + u) ^ Suc (length xs) - 1) * arithmetic_mean (map abs xs)"

text \<open>
  The threshold evaluator as the specification words it: the metrics are checked in
  the fixed order cpu, memory, thread count, and a violation carries the metric, the
  observed value and the limit of every metric whose observed value is above its limit.
\<close>

datatype checked_metric = CpuPercent | MemoryMb | ThreadCount

fun spec_exceeds :: "limits \<Rightarrow> metrics \<Rightarrow> checked_metric \<Rightarrow> bool" where
  "spec_exceeds th ms CpuPercent = (cpu_percent ms > limit_cpu_percent th)"
| "spec_exceeds th ms MemoryMb = (memory_mb ms > limit_memory_mb th)"
| "spec_exceeds th ms ThreadCount = (thread_count ms > limit_thread_count th)"

fun spec_violation :: "limits \<Rightarrow> metrics \<Rightarrow> checked_metric \<Rightarrow> event" where
  "spec_violation th ms CpuPercent = Print (HighCPU (cpu_percent ms) (limit_cpu_percent th))"
| "spec_violation th ms MemoryMb = Print (HighMemory (memory_mb ms) (limit_memory_mb th))"
| "spec_violation th ms ThreadCount =
     Print (HighThreadCount (thread_count ms) (limit_thread_count th))"

definition spec_evaluate :: "limits \<Rightarrow> metrics \<Rightarrow> event list" where
  "spec_evaluate th ms =
     map (spec_violation th ms) (filter (spec_exceeds th ms) [CpuPercent, MemoryMb, ThreadCount])"


text \<open>A monitor of capacity \<open>cap\<close> that has recorded nothing; a monitor none of whose
  five sampled histories is longer than its capacity.\<close>

definition fresh :: "nat \<Rightarrow> monitor \<Rightarrow> bool" where
  "fresh cap m =
     (history_size m = cap \<and> cpu_history m = [] \<and> memory_history m = [] \<and>
      thread_count_history m = [] \<and> handle_count_history m = [] \<and> time_history m = [])"



text \<open>The five sampled histories hold equally many entries.\<close>

definition equal_lengths :: "monitor \<Rightarrow> bool" where
  "equal_lengths m =
     (length (memory_history m) = length (cpu_history m) \<and>
      length (thread_count_history m) = length (cpu_history m) \<and>
      length (handle_count_history m) = length (cpu_history m) \<and>
      length (time_history m) = length (cpu_history m))"

text \<open>Two monitor states hold the same five histories.\<close>

definition same_histories :: "monitor \<Rightarrow> monitor \<Rightarrow> bool" where
  "same_histories m m' =
     (cpu_history m' = cpu_history m \<and>
      memory_history m' = memory_history m \<and>
      thread_count_history m' = thread_count_history m \<and>
      handle_count_history m' = handle_count_history m \<and>
      time_history m' = time_history m)"

text \<open>A tick at which the sampling loop of \<^verbatim>\<open>main\<close> ends if it gets that far: the
  duration has elapsed, or the sleep is interrupted.\<close>

definition ends_loop :: "args \<Rightarrow> tick \<Rightarrow> bool" where
  "ends_loop a t =
     (sleep_interrupted t \<or> (duration a > 0 \<and> elapsed t \<ge> of_int (duration a)))"

section \<open>Concrete runs\<close>

text \<open>
  A machine with one matching process of PID 7, as \<^verbatim>\<open>process_iter\<close> yields it and as
  \<^verbatim>\<open>psutil.Process(7)\<close> makes it, a monitor constructed there, probes that read a CPU
  percentage, and the monitors, reports and runs on which the properties below are
  evaluated, all in binary64 arithmetic.
\<close>

definition rusty :: proc where
  "rusty =
     \<lparr>proc_pid = 7,
      info = Some \<lparr>info_name = Has ''rusty-audio'', info_cmdline = Has [''rusty-audio'']\<rparr>\<rparr>"

definition bare_handle :: proc where
  "bare_handle = \<lparr>proc_pid = 7, info = None\<rparr>"

definition one_rusty :: os_view where
  "one_rusty =
     \<lparr>lookup = (\<lambda>n. if n = 7 then Some bare_handle else None), process_iter = [rusty]\<rparr>"

definition nothing_there :: os_view where
  "nothing_there = \<lparr>lookup = (\<lambda>n. None), process_iter = []\<rparr>"

definition reading :: "rat \<Rightarrow> probe" where
  "reading c =
     \<lparr>running = True, view = one_rusty, cpu_percent_read = Inr c, rss_read = Inr 2097152,
      num_threads_read = Some 4, win32 = False, num_handles_read = None,
      io_counters_read = None, memory_percent_read = Inr 1, now_iso = ''now'', time_now = 5,
      interrupt_after = None\<rparr>"

definition reading_of :: "rat \<Rightarrow> metrics" where
  "reading_of c =
     \<lparr>timestamp = ''now'', cpu_percent = c, memory_mb = 2, memory_percent = 1,
      thread_count = 4, handle_count = 0, read_bytes = 0, write_bytes = 0\<rparr>"

definition started :: monitor where
  "started = (init_fields None 100)\<lparr>process := Some rusty, pid := Some 7\<rparr>"




definition cut :: probe where
  "cut = (reading 30)\<lparr>interrupt_after := Some 1\<rparr>"

text \<open>What \<^verbatim>\<open>save_metrics\<close> meets: a live process and a writable file; a handle
  whose process has exited.\<close>

definition calm :: save_env where
  "calm = \<lparr>name_read = Inr ''rusty-audio'', open_error = None\<rparr>"

definition dead_handle :: save_env where
  "dead_handle = \<lparr>name_read = Inl NoSuchProcess, open_error = None\<rparr>"

definition empty_report :: snapshot where
  "empty_report =
     \<lparr>process_id = Some 7, process_name = ''rusty-audio'', monitoring_duration = 0,
      cpu = \<lparr>history = [], average = 0, peak = 0\<rparr>,
      memory = \<lparr>history = [], average = 0, peak = 0\<rparr>,
      threads = \<lparr>history = [], average = 0, peak = 0\<rparr>,
      saved_thresholds = default_thresholds,
      violations = \<lparr>cpu_exceeded = 0, memory_exceeded = 0, thread_exceeded = 0\<rparr>\<rparr>"

definition four_samples :: monitor where
  "four_samples = started\<lparr>cpu_history := [10, 30, 5, 40]\<rparr>"

definition four_report :: snapshot where
  "four_report =
     \<lparr>process_id = Some 7, process_name = ''rusty-audio'', monitoring_duration = 0,
      cpu = \<lparr>history = [10, 30, 5, 40], average = 85 / 4, peak = 40\<rparr>,
      memory = \<lparr>history = [], average = 0, peak = 0\<rparr>,
      threads = \<lparr>history = [], average = 0, peak = 0\<rparr>,
      saved_thresholds = default_thresholds,
      violations = \<lparr>cpu_exceeded = 2, memory_exceeded = 0, thread_exceeded = 0\<rparr>\<rparr>"

text \<open>The floats 0.1 and 0.2, a monitor whose cpu history holds them, and its report.\<close>

definition tenth :: rat where
  "tenth = 3602879701896397 / 36028797018963968"

definition fifth :: rat where
  "fifth = 3602879701896397 / 18014398509481984"

definition two_tenths :: monitor where
  "two_tenths = started\<lparr>cpu_history := [tenth, fifth]\<rparr>"

definition tenths_report :: snapshot where
  "tenths_report =
     \<lparr>process_id = Some 7, process_name = ''rusty-audio'', monitoring_duration = 0,
      cpu = \<lparr>history = [tenth, fifth], average = 1351079888211149 / 9007199254740992,
             peak = fifth\<rparr>,
      memory = \<lparr>history = [], average = 0, peak = 0\<rparr>,
      threads = \<lparr>history = [], average = 0, peak = 0\<rparr>,
      saved_thresholds = default_thresholds,
      violations = \<lparr>cpu_exceeded = 0, memory_exceeded = 0, thread_exceeded = 0\<rparr>\<rparr>"

definition one_sample :: monitor where
  "one_sample = update_history started (reading_of 30) 5"

definition cpu_only :: monitor where
  "cpu_only = started\<lparr>cpu_history := [30]\<rparr>"

definition ten_samples :: monitor where
  "ten_samples =
     started\<lparr>cpu_history := [100, 12, 12, 12, 12, 12, 12, 12, 12, 12, 12],
             memory_history := [2, 2, 2, 2, 2, 2, 2, 2, 2, 2, 2]\<rparr>"

definition first_chart :: chart where
  "first_chart =
     \<lparr>chart_cpu = 30, chart_memory = 2, chart_threads = 4, chart_handles = 0,
      chart_avg_cpu = 30, chart_avg_memory = 2\<rparr>"

definition console :: args where
  "console =
     \<lparr>arg_pid = None, duration = 0, interval = 1, plot = False, benchmark = False,
      arg_output = ''performance_metrics.json''\<rparr>"

definition interrupted :: tick where
  "interrupted =
     \<lparr>tick_probe = (reading 30)\<lparr>cpu_percent_read := Inl KeyboardInterrupt\<rparr>,
      elapsed = 0, sleep_interrupted = False\<rparr>"

definition zero_sample_run :: world where
  "zero_sample_run =
     \<lparr>float_ops = ieee, HAS_MATPLOTLIB = False, startup = one_rusty, ticks = [interrupted],
      frames = [], at_exit = calm, bench_pid = 0, bench_stdout = ''''\<rparr>"

definition charting :: args where
  "charting = console\<lparr>plot := True\<rparr>"

definition chart_run :: world where
  "chart_run =
     \<lparr>float_ops = ieee, HAS_MATPLOTLIB = True, startup = one_rusty, ticks = [],
      frames = [reading 30], at_exit = calm, bench_pid = 0, bench_stdout = ''''\<rparr>"

definition lost :: tick where
  "lost =
     \<lparr>tick_probe = (reading 30)\<lparr>running := False, view := nothing_there\<rparr>,
      elapsed = 2, sleep_interrupted = False\<rparr>"

definition lost_run :: world where
  "lost_run =
     \<lparr>float_ops = ieee, HAS_MATPLOTLIB = False, startup = one_rusty,
      ticks = [\<lparr>tick_probe = reading 30, elapsed = 1, sleep_interrupted = False\<rparr>, lost],
      frames = [], at_exit = dead_handle, bench_pid = 0, bench_stdout = ''''\<rparr>"

section \<open>Rounding\<close>

lemma round_half_even_error: "\<bar>of_int (round_half_even y) - y\<bar> \<le> 1 / 2"
proof -
  have "of_int \<lfloor>y\<rfloor> \<le> y" "y < of_int \<lfloor>y\<rfloor> + 1" by linarith+
  then show ?thesis
    by (auto simp add: round_half_even_def Let_def abs_le_iff)
qed

lemma binade_le:
  assumes "x \<noteq> 0"
  shows "2 powi (binade x) \<le> \<bar>x\<bar>"
proof -
  obtain p q where pq: "quotient_of \<bar>x\<bar> = (p, q)" by (cases "quotient_of \<bar>x\<bar>") auto
  then have q: "0 < q" and x: "\<bar>x\<bar> = of_int p / of_int q"
    using quotient_of_denom_pos quotient_of_div by auto
  from assms have "0 < \<bar>x\<bar>" by simp
  with x q have p: "0 < p" by (simp add: zero_less_divide_iff)
  let ?k = "bitlen p - bitlen q"
  show ?thesis
  proof (cases "2 powi ?k \<le> \<bar>x\<bar>")
    case True
    then show ?thesis by (simp add: binade_def pq Let_def)
  next
    case False
    have bp: "1 \<le> bitlen p" using p by (simp add: bitlen_alt_def)
    have bq: "1 \<le> bitlen q" using q by (simp add: bitlen_alt_def)
    have lo: "(2::int) ^ nat (bitlen p - 1) \<le> p" using bitlen_bounds [OF p] by simp
    have hi: "q < (2::int) ^ nat (bitlen q)" using bitlen_bounds [OF q] by simp
    have lo': "(2::rat) powi (bitlen p - 1) \<le> of_int p"
    proof -
      have "(2::rat) powi (bitlen p - 1) = of_int (2 ^ nat (bitlen p - 1))"
        using bp by (simp add: power_int_def)
      also have "\<dots> \<le> of_int p" using lo by (simp only: of_int_le_iff)
      finally show ?thesis .
    qed
    have hi': "of_int q \<le> (2::rat) powi (bitlen q)"
    proof -
      have "(2::rat) powi (bitlen q) = of_int (2 ^ nat (bitlen q))"
        using bq by (simp add: power_int_def)
      moreover have "(of_int q :: rat) \<le> of_int (2 ^ nat (bitlen q))"
        using hi by (simp only: of_int_le_iff)
      ultimately show ?thesis by simp
    qed
    have "(2::rat) powi (?k - 1) * of_int q \<le> 2 powi (?k - 1) * 2 powi (bitlen q)"
      using hi' by (intro mult_left_mono) simp_all
    also have "\<dots> = 2 powi (bitlen p - 1)"
      by (simp flip: power_int_add)
    also have "\<dots> \<le> of_int p" by (rule lo')
    finally have "(2::rat) powi (?k - 1) \<le> of_int p / of_int q"
      using q by (simp add: pos_le_divide_eq)
    moreover have "binade x = ?k - 1"
      using False by (simp add: binade_def pq Let_def)
    ultimately show ?thesis by (simp only: x)
  qed
qed

lemma round_double_error: "\<bar>round_double x - x\<bar> \<le> \<bar>x\<bar> / 2 ^ 53"
proof (cases "x = 0")
  case True
  then show ?thesis by (simp add: round_double_def)
next
  case False
  define s :: rat where "s = 2 powi (52 - binade x)"
  define y where "y = \<bar>x\<bar> * s"
  define m :: rat where "m = of_int (round_half_even y)"
  have s: "0 < s" by (simp add: s_def)
  have "2 powi (binade x) * s = (2::rat) powi 52"
    unfolding s_def by (simp flip: power_int_add)
  then have "(2::rat) ^ 52 = 2 powi (binade x) * s" by simp
  also have "\<dots> \<le> y"
    unfolding y_def using binade_le [OF False] s by (intro mult_right_mono) simp_all
  finally have y: "(2::rat) ^ 52 \<le> y" .
  have e: "\<bar>m - y\<bar> \<le> 1 / 2" unfolding m_def by (rule round_half_even_error)
  have rd: "round_double x = sgn x * m / s"
    using False by (simp add: round_double_def s_def m_def y_def Let_def)
  have "x = sgn x * y / s"
    using s by (simp add: y_def sgn_mult_abs)
  then have "round_double x - x = sgn x * (m - y) / s"
    using rd by (simp add: algebra_simps diff_divide_distrib)
  then have "\<bar>round_double x - x\<bar> = \<bar>m - y\<bar> / s"
    using s False by (simp add: abs_mult abs_sgn_eq)
  also have "\<dots> \<le> (1 / 2) / s"
    using e s by (intro divide_right_mono) simp_all
  also have "\<dots> \<le> (y / 2 ^ 53) / s"
  proof -
    have "(1::rat) / 2 \<le> y / 2 ^ 53" using y by (simp add: field_simps)
    then show ?thesis using s by (intro divide_right_mono) simp_all
  qed
  also have "\<dots> = \<bar>x\<bar> / 2 ^ 53"
    using s by (simp add: y_def)
  finally show ?thesis .
qed

lemma rounded_sum_error:
  fixes u :: rat and rd :: "rat \<Rightarrow> rat"
  assumes u: "0 \<le> u" and rd: "\<And>x. \<bar>rd x - x\<bar> \<le> u * \<bar>x\<bar>"
  shows "\<bar>foldl (\<lambda>a x. rd (a + x)) 0 xs - sum_list xs\<bar> \<le>
         ((1 + u) ^ length xs - 1) * sum_list (map abs xs)"
proof (induction xs rule: rev_induct)
  case Nil
  show ?case by simp
next
  case (snoc x xs)
  define s' where "s' = foldl (\<lambda>a x. rd (a + x)) 0 xs"
  define s where "s = sum_list xs"
  define T where "T = sum_list (map abs xs)"
  define g where "g = (1 + u) ^ length xs - 1"
  have g: "0 \<le> g" unfolding g_def using u by (simp add: one_le_power)
  have T: "0 \<le> T" unfolding T_def by (rule sum_list_nonneg) auto
  have sT: "\<bar>s\<bar> \<le> T" unfolding s_def T_def by (rule sum_list_abs)
  have E: "\<bar>s' - s\<bar> \<le> g * T" using snoc.IH by (simp add: s'_def s_def T_def g_def)
  have "\<bar>rd (s' + x) - (s + x)\<bar> \<le> \<bar>rd (s' + x) - (s' + x)\<bar> + \<bar>s' - s\<bar>" by simp
  also have "\<dots> \<le> u * \<bar>s' + x\<bar> + \<bar>s' - s\<bar>" using rd [of "s' + x"] by simp
  also have "\<dots> \<le> u * (\<bar>s' - s\<bar> + (T + \<bar>x\<bar>)) + \<bar>s' - s\<bar>"
  proof -
    have "\<bar>s' + x\<bar> \<le> \<bar>s' - s\<bar> + (T + \<bar>x\<bar>)" using sT by linarith
    then have "u * \<bar>s' + x\<bar> \<le> u * (\<bar>s' - s\<bar> + (T + \<bar>x\<bar>))"
      using u by (rule mult_left_mono)
    then show ?thesis by simp
  qed
  also have "\<dots> = (1 + u) * \<bar>s' - s\<bar> + u * (T + \<bar>x\<bar>)" by (simp add: algebra_simps)
  also have "\<dots> \<le> (1 + u) * (g * T) + u * (T + \<bar>x\<bar>)"
    using E u by (simp add: mult_left_mono)
  also have "\<dots> \<le> (1 + u) * (g * (T + \<bar>x\<bar>)) + u * (T + \<bar>x\<bar>)"
  proof -
    have gT: "g * T \<le> g * (T + \<bar>x\<bar>)" using g by (intro mult_left_mono) simp_all
    have "0 \<le> 1 + u" using u by simp
    with gT have "(1 + u) * (g * T) \<le> (1 + u) * (g * (T + \<bar>x\<bar>))"
      by (rule mult_left_mono)
    then show ?thesis by simp
  qed
  also have "\<dots> = ((1 + u) ^ Suc (length xs) - 1) * (T + \<bar>x\<bar>)"
    by (simp add: g_def algebra_simps)
  finally show ?case
    by (simp add: s'_def s_def T_def)
qed

lemma ieee_accurate: "accurate (1 / 2 ^ 53) ieee"
proof -
  have rd: "\<bar>round_double x - x\<bar> \<le> (1 / 2 ^ 53) * \<bar>x\<bar>" for x
    using round_double_error [of x] by simp
  have "\<bar>float_sum ieee xs - sum_list xs\<bar> \<le>
        ((1 + 1 / 2 ^ 53) ^ length xs - 1) * sum_list (map abs xs)" for xs
    using rounded_sum_error [of "1 / 2 ^ 53" round_double xs] rd
    by (simp add: ieee_def)
  moreover have "\<bar>true_div ieee a b - a / b\<bar> \<le> (1 / 2 ^ 53) * \<bar>a / b\<bar>" for a b
    using rd [of "a / b"] by (simp add: ieee_def)
  ultimately show ?thesis unfolding accurate_def by simp
qed

lemma accurate_nonneg: "accurate u ar \<Longrightarrow> 0 \<le> u"
  unfolding accurate_def by blast

lemma accurate_sum:
  "accurate u ar \<Longrightarrow>
   \<bar>float_sum ar xs - sum_list xs\<bar> \<le> ((1 + u) ^ length xs - 1) * sum_list (map abs xs)"
  unfolding accurate_def by blast

lemma accurate_div:
  "accurate u ar \<Longrightarrow> b \<noteq> 0 \<Longrightarrow> \<bar>true_div ar a b - a / b\<bar> \<le> u * \<bar>a / b\<bar>"
  unfolding accurate_def by blast

lemma float_mean_tolerance:
  assumes acc: "accurate u ar" and ne: "xs \<noteq> []"
  shows "\<bar>float_mean ar xs - arithmetic_mean xs\<bar> \<le> tolerance u xs"
proof -
  define n :: rat where "n = of_nat (length xs)"
  define s' where "s' = float_sum ar xs"
  define s where "s = sum_list xs"
  define T where "T = sum_list (map abs xs)"
  define g where "g = (1 + u) ^ length xs - 1"
  have u: "0 \<le> u" using acc by (rule accurate_nonneg)
  have n: "0 < n" using ne by (simp add: n_def)
  have g: "0 \<le> g" unfolding g_def using u by (simp add: one_le_power)
  have T: "0 \<le> T" unfolding T_def by (rule sum_list_nonneg) auto
  have sT: "\<bar>s\<bar> \<le> T" unfolding s_def T_def by (rule sum_list_abs)
  have E: "\<bar>s' - s\<bar> \<le> g * T"
    unfolding s'_def s_def T_def g_def using acc by (rule accurate_sum)
  have D: "\<bar>float_mean ar xs - s' / n\<bar> \<le> u * \<bar>s' / n\<bar>"
    unfolding float_mean_def s'_def n_def
    using acc by (rule accurate_div) (use ne in simp)
  have s'b: "\<bar>s'\<bar> \<le> (1 + g) * T"
  proof -
    have "\<bar>s'\<bar> \<le> \<bar>s' - s\<bar> + \<bar>s\<bar>" by simp
    also have "\<dots> \<le> g * T + T" using E sT by simp
    finally show ?thesis by (simp add: algebra_simps)
  qed
  have "\<bar>float_mean ar xs - s / n\<bar> \<le> \<bar>float_mean ar xs - s' / n\<bar> + \<bar>s' / n - s / n\<bar>"
    by simp
  also have "\<dots> \<le> u * \<bar>s' / n\<bar> + \<bar>s' / n - s / n\<bar>" using D by simp
  also have "\<dots> = (u * \<bar>s'\<bar> + \<bar>s' - s\<bar>) / n"
    using n by (simp add: abs_divide add_divide_distrib flip: diff_divide_distrib)
  also have "\<dots> \<le> (u * ((1 + g) * T) + g * T) / n"
  proof -
    have "u * \<bar>s'\<bar> \<le> u * ((1 + g) * T)" using s'b u by (rule mult_left_mono)
    with E have "u * \<bar>s'\<bar> + \<bar>s' - s\<bar> \<le> u * ((1 + g) * T) + g * T" by simp
    then show ?thesis using n by (intro divide_right_mono) simp_all
  qed
  also have "\<dots> = ((1 + u) ^ Suc (length xs) - 1) * (T / n)"
    by (simp add: g_def algebra_simps add_divide_distrib diff_divide_distrib)
  finally show ?thesis
    by (simp add: tolerance_def arithmetic_mean_def s_def T_def n_def)
qed

section \<open>Values of the concrete runs\<close>

lemma ieee_values:
  "true_div ieee 2097152 (1024 * 1024) = 2" "true_div ieee 2097152 1048576 = 2"
  "float_sum ieee [30] = 30" "true_div ieee 30 1 = 30"
  "float_sum ieee [2] = 2" "true_div ieee 2 1 = 2" "true_div ieee 4 1 = 4"
  "float_sum ieee [10, 30, 5, 40] = 85" "true_div ieee 85 4 = 85 / 4"
  "float_sum ieee [12, 12, 12, 12, 12, 12, 12, 12, 12, 12] = 120" "true_div ieee 120 10 = 12"
  "float_sum ieee [2, 2, 2, 2, 2, 2, 2, 2, 2, 2] = 20" "true_div ieee 20 10 = 2"
  by code_simp+

lemma ieee_tenths:
  "float_sum ieee [tenth, fifth] = 1351079888211149 / 4503599627370496"
  "true_div ieee (1351079888211149 / 4503599627370496) 2 = 1351079888211149 / 9007199254740992"
  by code_simp+

lemma rusty_accepted: "is_rusty_audio_process rusty = Inr True"
  by code_simp

lemma bare_handle_raises: "is_rusty_audio_process bare_handle = Inl AttributeError"
  by (simp add: is_rusty_audio_process_def bare_handle_def)

lemma started_ok:
  "PerformanceMonitor one_rusty None 100 = (None, started, [Print (FoundProcess 7)])"
  by (simp add: PerformanceMonitor_def find_process_def init_fields_def one_rusty_def
      rusty_accepted started_def) (simp add: rusty_def)

lemma pid_option_raises:
  "PerformanceMonitor one_rusty (Some 7) 100 =
     (Some AttributeError, (init_fields (Some 7) 100)\<lparr>process := Some bare_handle\<rparr>, [])"
  by (simp add: PerformanceMonitor_def find_process_def init_fields_def one_rusty_def
      bare_handle_raises)

section \<open>The bounded history\<close>




lemma deque_append_length:
  "length (deque_append cap d x) = (if cap < Suc (length d) then length d else Suc (length d))"
  by (simp add: deque_append_def Let_def)

section \<open>The five appends\<close>

lemma update_history_eq:
  "update_history m ms t =
     m\<lparr>cpu_history := deque_append (history_size m) (cpu_history m) (cpu_percent ms),
       memory_history := deque_append (history_size m) (memory_history m) (memory_mb ms),
       thread_count_history :=
         deque_append (history_size m) (thread_count_history m) (thread_count ms),
       handle_count_history :=
         deque_append (history_size m) (handle_count_history m) (handle_count ms),
       time_history := deque_append (history_size m) (time_history m) t\<rparr>"
  by (simp add: update_history_def run_statements_def history_appends_def)



lemma update_history_equal_lengths:
  "equal_lengths m \<Longrightarrow> equal_lengths (update_history m ms t)"
  by (simp add: equal_lengths_def update_history_eq deque_append_length)

lemma update_history_thresholds: "thresholds (update_history m ms t) = thresholds m"
  by (simp add: update_history_eq)

lemma update_history_size: "history_size (update_history m ms t) = history_size m"
  by (simp add: update_history_eq)


section \<open>Properties of sampling\<close>

lemma same_histories_refl: "same_histories m m"
  by (simp add: same_histories_def)

lemma same_histories_equal_lengths:
  "same_histories m m' \<Longrightarrow> equal_lengths m \<Longrightarrow> equal_lengths m'"
  by (simp add: same_histories_def equal_lengths_def)


lemma find_process_histories:
  "find_process os m = (r, m', out) \<Longrightarrow>
   same_histories m m' \<and> history_size m' = history_size m \<and> thresholds m' = thresholds m"
  by (auto simp add: find_process_def same_histories_def
      split: option.splits if_splits sum.splits)

lemma sample_cases:
  assumes "sample ar m p = (r, m', out)"
  obtains
    (sampled) ms where "read_metrics ar p = Inr ms" "interrupt_after p = None"
      "r = Inr (Some ms)" "m' = update_history m ms (time_now p)"
      "out = check_thresholds m' ms"
  | (cut) ms k where "read_metrics ar p = Inr ms" "interrupt_after p = Some k"
      "r = Inl KeyboardInterrupt"
      "m' = run_statements (take k (history_appends ms (time_now p))) m" "out = []"
  | (caught) e where "read_metrics ar p = Inl e" "e = NoSuchProcess \<or> e = AccessDenied"
      "r = Inr None" "m' = m" "out = [Print (ErrorCollecting e)]"
  | (raised) e where "read_metrics ar p = Inl e" "e \<noteq> NoSuchProcess" "e \<noteq> AccessDenied"
      "r = Inl e" "m' = m" "out = []"
proof (cases "read_metrics ar p")
  case (Inl e)
  show ?thesis
  proof (cases "e = NoSuchProcess \<or> e = AccessDenied")
    case True
    with Inl assms have "r = Inr None" "m' = m" "out = [Print (ErrorCollecting e)]"
      by (auto simp add: sample_def)
    with Inl True show ?thesis by (rule caught)
  next
    case False
    with Inl assms have "r = Inl e" "m' = m" "out = []"
      by (auto simp add: sample_def)
    with Inl False show ?thesis by (intro raised [of e]) auto
  qed
next
  case (Inr ms)
  show ?thesis
  proof (cases "interrupt_after p")
    case None
    with Inr assms have "r = Inr (Some ms)" "m' = update_history m ms (time_now p)"
      "out = check_thresholds m' ms"
      by (auto simp add: sample_def Let_def)
    with Inr None show ?thesis by (rule sampled)
  next
    case (Some k)
    with Inr assms have "r = Inl KeyboardInterrupt"
      "m' = run_statements (take k (history_appends ms (time_now p))) m" "out = []"
      by (auto simp add: sample_def)
    with Inr Some show ?thesis by (rule cut)
  qed
qed

lemma collect_metrics_running:
  "process m \<noteq> None \<Longrightarrow> running p \<Longrightarrow> collect_metrics ar m p = sample ar m p"
  unfolding collect_metrics_def by auto

lemma collect_metrics_refind:
  "process m = None \<or> \<not> running p \<Longrightarrow>
   collect_metrics ar m p =
     (case find_process (view p) m of
        (Some e, m', out) \<Rightarrow> (Inl e, m', out)
      | (None, m', out) \<Rightarrow>
          (case sample ar m' p of (r, m'', out') \<Rightarrow> (r, m'', out @ out')))"
  unfolding collect_metrics_def by auto

text \<open>A call either stops in process resolution, or resolves (if it has to) and samples.\<close>

lemma collect_metrics_split:
  assumes "collect_metrics ar m p = (r, m', out)"
  obtains
    (stopped) e where "process m = None \<or> \<not> running p"
      "find_process (view p) m = (Some e, m', out)" "r = Inl e"
  | (went_on) m1 out1 out2 where "same_histories m m1" "history_size m1 = history_size m"
      "thresholds m1 = thresholds m"
      "process m \<noteq> None \<and> running p \<longrightarrow> m1 = m \<and> out1 = []"
      "sample ar m1 p = (r, m', out2)" "out = out1 @ out2"
proof (cases "process m = None \<or> \<not> running p")
  case False
  then have "sample ar m p = (r, m', out)"
    using assms collect_metrics_running [of m p ar] by auto
  then show ?thesis
    by (intro went_on [of m "[]" out]) (simp_all add: same_histories_refl)
next
  case True
  obtain e1 m1 out1 where fp: "find_process (view p) m = (e1, m1, out1)"
    by (cases "find_process (view p) m") auto
  note h = find_process_histories [OF fp]
  show ?thesis
  proof (cases e1)
    case (Some e)
    with fp assms collect_metrics_refind [OF True, of ar]
    have "r = Inl e" "m' = m1" "out = out1" by simp_all
    with True fp Some show ?thesis by (intro stopped [of e]) simp_all
  next
    case None
    obtain r2 m2 out2 where s: "sample ar m1 p = (r2, m2, out2)"
      by (cases "sample ar m1 p") auto
    with None fp assms collect_metrics_refind [OF True, of ar]
    have "r = r2" "m' = m2" "out = out1 @ out2" by simp_all
    with s h True show ?thesis by (intro went_on [of m1 out1 out2]) auto
  qed
qed

lemma collect_metrics_cases:
  assumes "collect_metrics ar m p = (r, m', out)"
  obtains
    (sampled) ms m1 where "r = Inr (Some ms)" "interrupt_after p = None"
      "same_histories m m1" "history_size m1 = history_size m"
      "m' = update_history m1 ms (time_now p)"
  | (cut) ms k m1 where "r = Inl KeyboardInterrupt" "interrupt_after p = Some k"
      "same_histories m m1" "history_size m1 = history_size m"
      "m' = run_statements (take k (history_appends ms (time_now p))) m1"
  | (unchanged) "\<forall>ms. r \<noteq> Inr (Some ms)" "same_histories m m'"
      "history_size m' = history_size m"
  using assms
proof (cases rule: collect_metrics_split)
  case (stopped e)
  with find_process_histories [of "view p" m "Some e" m' out] show ?thesis
    by (intro unchanged) simp_all
next
  case (went_on m1 out1 out2)
  from went_on(5) show ?thesis
  proof (cases rule: sample_cases)
    case (sampled ms)
    show ?thesis
      by (rule that(1) [OF sampled(3) sampled(2) went_on(1) went_on(2) sampled(4)])
  next
    case (cut ms k)
    show ?thesis
      by (rule that(2) [OF cut(3) cut(2) went_on(1) went_on(2) cut(4)])
  next
    case (caught e)
    with went_on show ?thesis by (intro unchanged) simp_all
  next
    case (raised e)
    with went_on show ?thesis by (intro unchanged) simp_all
  qed
qed



section \<open>Sampling in the concrete runs\<close>

lemma read_reading: "read_metrics ieee (reading c) = Inr (reading_of c)"
  by (simp add: read_metrics_def reading_def reading_of_def ieee_values)

lemma reading_sel:
  "running (reading c)" "time_now (reading c) = 5" "view (reading c) = one_rusty"
  "interrupt_after (reading c) = None"
  by (simp_all add: reading_def)

lemma started_sel:
  "process started = Some rusty" "thresholds started = default_thresholds"
  "history_size started = 100" "cpu_history started = []" "memory_history started = []"
  "thread_count_history started = []" "handle_count_history started = []"
  "time_history started = []" "pid started = Some 7"
  by (simp_all add: started_def init_fields_def)


lemma collect_reading_any:
  "process m \<noteq> None \<Longrightarrow>
   collect_metrics ieee m (reading c) =
     (Inr (Some (reading_of c)), update_history m (reading_of c) 5,
      check_thresholds (update_history m (reading_of c) 5) (reading_of c))"
  by (simp add: collect_metrics_running sample_def read_reading reading_sel Let_def)

lemma check_reading:
  "thresholds m = default_thresholds \<Longrightarrow>
   check_thresholds m (reading_of 30) = [Print (HighCPU 30 25)]"
  by (simp add: check_thresholds_def reading_of_def default_thresholds_def)

lemma collect_reading:
  "collect_metrics ieee started (reading 30) =
     (Inr (Some (reading_of 30)), update_history started (reading_of 30) 5,
      [Print (HighCPU 30 25)])"
  by (simp add: collect_reading_any started_sel check_reading update_history_thresholds)

lemma fresh_started: "fresh 100 started"
  by (simp add: fresh_def started_sel)






text \<open>
  A call of \<^verbatim>\<open>collect_metrics\<close> that a KeyboardInterrupt cuts after the first of the
  five appends leaves the cpu history one entry longer than the other four.
\<close>

lemma read_cut: "read_metrics ieee cut = Inr (reading_of 30)"
  by (simp add: read_metrics_def cut_def reading_def reading_of_def ieee_values)

lemma cut_sel: "running cut" "time_now cut = 5" "interrupt_after cut = Some 1"
  by (simp_all add: cut_def reading_def)

lemma collect_cut:
  "collect_metrics ieee started cut = (Inl KeyboardInterrupt, cpu_only, [])"
  by (simp add: collect_metrics_running sample_def read_cut cut_sel started_sel
        history_appends_def run_statements_def cpu_only_def deque_append_def reading_of_def)

theorem interrupt_between_appends_unbalances:
  "equal_lengths started \<and>
   collect_metrics ieee started cut = (Inl KeyboardInterrupt, cpu_only, []) \<and>
   cpu_history cpu_only = [30] \<and> memory_history cpu_only = [] \<and>
   \<not> equal_lengths cpu_only"
  by (simp add: collect_cut equal_lengths_def started_sel cpu_only_def)

text \<open>
  Claim C9, as the code has it. The five sampled histories have equal lengths in a new
  monitor, and every call of \<^verbatim>\<open>collect_metrics\<close> that is not cut by a
  KeyboardInterrupt inside the block of the five appends keeps them equal: a call that
  returns a sample has appended exactly one value to each of the five, with the same
  bound, and a call that returns the empty dictionary or raises before the block has
  left all five as they were.
\<close>

theorem histories_stay_aligned:
  "equal_lengths (init_fields p0 cap) \<and>
   (collect_metrics ar m p = (r, m', out) \<and>
    (interrupt_after p = None \<or> r \<noteq> Inl KeyboardInterrupt) \<longrightarrow>
      (equal_lengths m \<longrightarrow> equal_lengths m') \<and>
      (case r of
         Inr (Some ms) \<Rightarrow>
           cpu_history m' = deque_append (history_size m) (cpu_history m) (cpu_percent ms) \<and>
           memory_history m' = deque_append (history_size m) (memory_history m) (memory_mb ms) \<and>
           thread_count_history m' =
             deque_append (history_size m) (thread_count_history m) (thread_count ms) \<and>
           handle_count_history m' =
             deque_append (history_size m) (handle_count_history m) (handle_count ms) \<and>
           time_history m' = deque_append (history_size m) (time_history m) (time_now p)
       | _ \<Rightarrow> same_histories m m'))"
proof -
  have init: "equal_lengths (init_fields p0 cap)"
    by (simp add: equal_lengths_def init_fields_def)
  have step: "(equal_lengths m \<longrightarrow> equal_lengths m') \<and>
      (case r of
         Inr (Some ms) \<Rightarrow>
           cpu_history m' = deque_append (history_size m) (cpu_history m) (cpu_percent ms) \<and>
           memory_history m' = deque_append (history_size m) (memory_history m) (memory_mb ms) \<and>
           thread_count_history m' =
             deque_append (history_size m) (thread_count_history m) (thread_count ms) \<and>
           handle_count_history m' =
             deque_append (history_size m) (handle_count_history m) (handle_count ms) \<and>
           time_history m' = deque_append (history_size m) (time_history m) (time_now p)
       | _ \<Rightarrow> same_histories m m')"
    if c: "collect_metrics ar m p = (r, m', out)"
      and n: "interrupt_after p = None \<or> r \<noteq> Inl KeyboardInterrupt"
    using c
  proof (cases rule: collect_metrics_cases)
    case (sampled ms m1)
    have "equal_lengths m \<longrightarrow> equal_lengths m'"
      using sampled(3,5)
      by (auto intro: update_history_equal_lengths same_histories_equal_lengths)
    moreover have
      "cpu_history m' = deque_append (history_size m) (cpu_history m) (cpu_percent ms)"
      "memory_history m' = deque_append (history_size m) (memory_history m) (memory_mb ms)"
      "thread_count_history m' =
         deque_append (history_size m) (thread_count_history m) (thread_count ms)"
      "handle_count_history m' =
         deque_append (history_size m) (handle_count_history m) (handle_count ms)"
      "time_history m' = deque_append (history_size m) (time_history m) (time_now p)"
      using sampled(3,4,5) by (simp_all add: update_history_eq same_histories_def)
    ultimately show ?thesis using sampled(1) by simp
  next
    case (cut ms k m1)
    with n show ?thesis by simp
  next
    case unchanged
    have "equal_lengths m \<longrightarrow> equal_lengths m'"
      using unchanged(2) by (auto intro: same_histories_equal_lengths)
    then show ?thesis
      using unchanged(1,2) by (auto split: sum.splits option.splits)
  qed
  from init step show ?thesis by blast
qed

theorem histories_stay_aligned_witness:
  "equal_lengths (init_fields None 100) \<and>
   collect_metrics ieee started (reading 30) =
     (Inr (Some (reading_of 30)), update_history started (reading_of 30) 5,
      [Print (HighCPU 30 25)]) \<and>
   interrupt_after (reading 30) = None \<and>
   equal_lengths started \<and>
   equal_lengths (update_history started (reading_of 30) 5) \<and>
   cpu_history (update_history started (reading_of 30) 5) = [30] \<and>
   time_history (update_history started (reading_of 30) 5) = [5]"
  using histories_stay_aligned [of None 100 ieee started "reading 30" "Inr (Some (reading_of 30))"
              "update_history started (reading_of 30) 5" "[Print (HighCPU 30 25)]"]
        collect_reading
  by (simp add: started_sel init_fields_def equal_lengths_def reading_of_def deque_append_def
      update_history_eq reading_sel)







section \<open>Threshold evaluation and violation counters\<close>

text \<open>
  Claim C4. Threshold evaluation depends on the sample and the thresholds only, and
  yields one violation, with the observed value and the limit, for exactly the metrics
  whose observed value is strictly above the limit, in the fixed order cpu, memory,
  thread count. Equal inputs give equal lists.
\<close>

theorem check_thresholds_evaluates_in_order:
  "check_thresholds m ms = spec_evaluate (thresholds m) ms \<and>
   (thresholds m' = thresholds m \<longrightarrow> check_thresholds m' ms = check_thresholds m ms)"
  by (simp add: check_thresholds_def spec_evaluate_def)

theorem check_thresholds_evaluates_in_order_witness:
  "check_thresholds started (reading_of 30) = [Print (HighCPU 30 25)] \<and>
   spec_evaluate (thresholds started) (reading_of 30) = [Print (HighCPU 30 25)] \<and>
   thresholds (update_history started (reading_of 30) 5) = thresholds started \<and>
   check_thresholds (update_history started (reading_of 30) 5) (reading_of 30) =
     check_thresholds started (reading_of 30)"
  using check_thresholds_evaluates_in_order
          [of started "reading_of 30" "update_history started (reading_of 30) 5"]
  by (simp add: started_sel check_reading update_history_thresholds)

lemma count_exceeding_length:
  "count_exceeding limit h = length (filter (\<lambda>x. x > limit) h)"
proof -
  have "foldl (+) a (map (\<lambda>x. 1) xs) = a + length xs" for a :: nat and xs :: "'a list"
    by (induction xs arbitrary: a) simp_all
  then show ?thesis by (simp add: count_exceeding_def py_sum_def)
qed

text \<open>
  Claim C5. The violation counters are computed from the histories at the time of the
  call: each is the number of entries strictly above the threshold. With the cpu
  threshold 25 of \<^verbatim>\<open>__init__\<close> and the recorded cpu samples 10, 30, 5, 40 the cpu
  counter is 2, the entries above the threshold being those at the indices 1 and 3.
\<close>

theorem violation_counters_recount_history:
  "cpu_exceeded (get_threshold_violations m) =
     length (filter (\<lambda>c. c > limit_cpu_percent (thresholds m)) (cpu_history m)) \<and>
   memory_exceeded (get_threshold_violations m) =
     length (filter (\<lambda>x. x > limit_memory_mb (thresholds m)) (memory_history m)) \<and>
   thread_exceeded (get_threshold_violations m) =
     length (filter (\<lambda>n. n > limit_thread_count (thresholds m)) (thread_count_history m)) \<and>
   limit_cpu_percent (thresholds (init_fields p0 100)) = 25 \<and>
   cpu_exceeded (get_threshold_violations
     ((init_fields p0 100)\<lparr>cpu_history := foldl (deque_append 100) [] [10, 30, 5, 40]\<rparr>)) = 2 \<and>
   filter (\<lambda>i. [10, 30, 5, 40 :: rat] ! i > limit_cpu_percent (thresholds (init_fields p0 100)))
     [0 ..< 4] = [1, 3]"
proof -
  have u: "[0 ..< 4] = [0, 1, 2, Suc 2]"
    by (simp add: upt_rec)
  show ?thesis
    by (simp add: get_threshold_violations_def count_exceeding_length deque_append_def u
        init_fields_def default_thresholds_def)
qed

theorem violation_counters_recount_history_witness:
  "cpu_exceeded (get_threshold_violations four_samples) = 2 \<and>
   memory_exceeded (get_threshold_violations four_samples) = 0 \<and>
   thread_exceeded (get_threshold_violations four_samples) = 0"
  using violation_counters_recount_history [of four_samples None]
  by (simp add: four_samples_def started_sel default_thresholds_def)

section \<open>The saved snapshot\<close>

lemma foldl_max_Max:
  "foldl (\<lambda>m v. if v > m then v else m) (x::'a::linorder) ys = Max (set (x # ys))"
proof (induction ys arbitrary: x)
  case Nil
  show ?case by simp
next
  case (Cons y ys)
  have "(if y > x then y else x) = max x y" by (auto simp add: max_def)
  then have "foldl (\<lambda>m v. if v > m then v else m) x (y # ys) = Max (set (max x y # ys))"
    using Cons.IH [of "max x y"] by simp
  also have "\<dots> = Max (set (x # y # ys))"
  proof (cases "ys = []")
    case True
    then show ?thesis by (simp add: max.commute)
  next
    case False
    then show ?thesis by (simp add: max.assoc)
  qed
  finally show ?case .
qed

lemma py_max_Max: "xs \<noteq> [] \<Longrightarrow> py_max xs = Inr (Max (set xs))"
  by (cases xs) (simp_all add: py_max_def foldl_max_Max del: foldl_Cons set_simps)

lemma stats_of_Nil: "stats_of ar f [] = Inr \<lparr>history = [], average = 0, peak = 0\<rparr>"
  by (simp add: stats_of_def)

lemma stats_of_nonempty:
  "h \<noteq> [] \<Longrightarrow>
   stats_of ar f h =
     Inr \<lparr>history = h, average = true_div ar (f h) (of_nat (length h)), peak = Max (set h)\<rparr>"
  by (simp add: stats_of_def py_truediv_def py_max_Max)

lemma stats_of_total: "\<exists>s. stats_of ar f h = Inr s \<and> history s = h"
  by (cases "h = []") (simp_all add: stats_of_Nil stats_of_nonempty)

lemma stats_of_Nil_fields: "stats_of ar f [] = Inr s \<Longrightarrow> average s = 0 \<and> peak s = 0"
  by (auto simp add: stats_of_Nil)

lemma build_data_Inl:
  "build_data ar env m = Inl e \<Longrightarrow> process m \<noteq> None \<and> name_read env = Inl e"
proof -
  obtain c where c: "stats_of ar (float_sum ar) (cpu_history m) = Inr c"
    using stats_of_total by blast
  obtain mem where mem: "stats_of ar (float_sum ar) (memory_history m) = Inr mem"
    using stats_of_total by blast
  obtain thr where thr:
    "stats_of ar (\<lambda>h. of_int (py_sum h)) (thread_count_history m) = Inr thr"
    using stats_of_total by blast
  assume "build_data ar env m = Inl e"
  then show ?thesis
    by (simp add: build_data_def c mem thr split: option.splits sum.splits)
qed

lemma build_data_Inr:
  "build_data ar env m = Inr d \<Longrightarrow>
   stats_of ar (float_sum ar) (cpu_history m) = Inr (cpu d) \<and>
   stats_of ar (float_sum ar) (memory_history m) = Inr (memory d) \<and>
   stats_of ar (\<lambda>h. of_int (py_sum h)) (thread_count_history m) = Inr (threads d) \<and>
   monitoring_duration d = length (time_history m) \<and>
   violations d = get_threshold_violations m \<and>
   saved_thresholds d = thresholds m \<and> process_id d = pid m"
  by (auto simp add: build_data_def split: sum.splits)

lemma save_metrics_cases:
  "save_metrics ar env m f = (r, out) \<Longrightarrow>
   (r = None \<and>
    (\<exists>d. build_data ar env m = Inr d \<and> out = [WriteFile f d, Print (MetricsSaved f)])) \<or>
   (\<exists>e. r = Some e \<and> out = [] \<and> (name_read env = Inl e \<or> open_error env = Some e))"
proof (cases "build_data ar env m")
  case (Inl e)
  assume "save_metrics ar env m f = (r, out)"
  with Inl build_data_Inl [OF Inl] show ?thesis by (auto simp add: save_metrics_def)
next
  case (Inr d)
  assume "save_metrics ar env m f = (r, out)"
  then have sv: "(case open_error env of
                    Some e \<Rightarrow> (Some e, [])
                  | None \<Rightarrow> (None, [WriteFile f d, Print (MetricsSaved f)])) = (r, out)"
    using Inr by (simp add: save_metrics_def)
  show ?thesis
  proof (cases "open_error env")
    case None
    with sv Inr show ?thesis by auto
  next
    case (Some e)
    with sv have "r = Some e" and "out = []" by simp_all
    with Some show ?thesis by blast
  qed
qed

lemma no_violations_started:
  "get_threshold_violations started =
     \<lparr>cpu_exceeded = 0, memory_exceeded = 0, thread_exceeded = 0\<rparr>"
  by (simp add: get_threshold_violations_def count_exceeding_def py_sum_def started_sel)

lemma build_data_started: "build_data ar calm started = Inr empty_report"
  by (simp add: build_data_def started_sel stats_of_Nil calm_def empty_report_def
      no_violations_started)

lemma save_started:
  "save_metrics ar calm started f = (None, [WriteFile f empty_report, Print (MetricsSaved f)])"
  by (simp add: save_metrics_def build_data_started) (simp add: calm_def)

lemma print_summary_empty:
  "cpu_history m = [] \<Longrightarrow> print_summary ar m = (Some ZeroDivisionError, [Print SummaryHeader])"
  by (simp add: print_summary_def py_truediv_def Let_def)

text \<open>
  On a monitor that has recorded nothing, \<^verbatim>\<open>save_metrics\<close> signals no error and
  stores the average 0 and the peak 0, while the average in the summary of \<^verbatim>\<open>main\<close>
  raises ZeroDivisionError: the program has no error for an empty history.
\<close>

theorem empty_history_signals_nothing:
  "save_metrics ieee calm started ''performance_metrics.json'' =
     (None, [WriteFile ''performance_metrics.json'' empty_report,
             Print (MetricsSaved ''performance_metrics.json'')]) \<and>
   history (cpu empty_report) = [] \<and>
   average (cpu empty_report) = 0 \<and> peak (cpu empty_report) = 0 \<and>
   print_summary ieee started = (Some ZeroDivisionError, [Print SummaryHeader])"
  by (simp add: save_started print_summary_empty started_sel) (simp add: empty_report_def)

text \<open>
  Claim C2, as the code has it. In the snapshot that \<^verbatim>\<open>save_metrics\<close> builds, the
  average and the peak of a metric (cpu, memory, threads) whose history is empty are
  both 0, under the guard \<^verbatim>\<open>if h else 0\<close>, and no error is signalled for them: the
  only error the construction of the snapshot can raise comes from reading the name of
  the process.
\<close>

theorem empty_history_saved_as_zero:
  "(build_data ar env m = Inl e \<longrightarrow> process m \<noteq> None \<and> name_read env = Inl e) \<and>
   (build_data ar env m = Inr d \<longrightarrow>
      (cpu_history m = [] \<longrightarrow> average (cpu d) = 0 \<and> peak (cpu d) = 0) \<and>
      (memory_history m = [] \<longrightarrow> average (memory d) = 0 \<and> peak (memory d) = 0) \<and>
      (thread_count_history m = [] \<longrightarrow> average (threads d) = 0 \<and> peak (threads d) = 0))"
proof -
  have "cpu_history m = [] \<longrightarrow> average (cpu d) = 0 \<and> peak (cpu d) = 0"
    if "build_data ar env m = Inr d"
    using build_data_Inr [OF that] by (auto dest: stats_of_Nil_fields)
  moreover have "memory_history m = [] \<longrightarrow> average (memory d) = 0 \<and> peak (memory d) = 0"
    if "build_data ar env m = Inr d"
    using build_data_Inr [OF that] by (auto dest: stats_of_Nil_fields)
  moreover have "thread_count_history m = [] \<longrightarrow> average (threads d) = 0 \<and> peak (threads d) = 0"
    if "build_data ar env m = Inr d"
    using build_data_Inr [OF that] by (auto dest: stats_of_Nil_fields)
  ultimately show ?thesis using build_data_Inl [of ar env m e] by blast
qed

theorem empty_history_saved_as_zero_witness:
  "build_data ieee calm started = Inr empty_report \<and> cpu_history started = [] \<and>
   memory_history started = [] \<and> thread_count_history started = [] \<and>
   average (cpu empty_report) = 0 \<and> peak (cpu empty_report) = 0 \<and>
   average (memory empty_report) = 0 \<and> peak (memory empty_report) = 0 \<and>
   average (threads empty_report) = 0 \<and> peak (threads empty_report) = 0"
  using empty_history_saved_as_zero [of ieee calm started NoSuchProcess empty_report]
    build_data_started [of ieee]
  by (simp add: started_sel)

text \<open>
  With the floats 0.1 and 0.2 in the cpu history, binary64 arithmetic stores an average
  that is not the arithmetic mean of the stored history: their sum is rounded.
\<close>

lemma two_tenths_sel:
  "process two_tenths = Some rusty" "thresholds two_tenths = default_thresholds"
  "cpu_history two_tenths = [tenth, fifth]" "memory_history two_tenths = []"
  "thread_count_history two_tenths = []" "time_history two_tenths = []"
  "pid two_tenths = Some 7"
  by (simp_all add: two_tenths_def started_def init_fields_def)

lemma tenth_less_fifth: "tenth < fifth" "fifth < 25" "tenth < 25"
  by (simp_all add: tenth_def fifth_def)

lemma save_two_tenths:
  "save_metrics ieee calm two_tenths f =
     (None, [WriteFile f tenths_report, Print (MetricsSaved f)])"
proof -
  have c: "stats_of ieee (float_sum ieee) [tenth, fifth] =
             Inr \<lparr>history = [tenth, fifth], average = 1351079888211149 / 9007199254740992,
                  peak = fifth\<rparr>"
    by (simp add: stats_of_def py_max_def py_truediv_def ieee_tenths tenth_less_fifth)
  have v: "get_threshold_violations two_tenths =
             \<lparr>cpu_exceeded = 0, memory_exceeded = 0, thread_exceeded = 0\<rparr>"
    using tenth_less_fifth
    by (simp add: get_threshold_violations_def count_exceeding_def py_sum_def two_tenths_sel
        default_thresholds_def)
  have "build_data ieee calm two_tenths = Inr tenths_report"
    by (simp add: build_data_def two_tenths_sel stats_of_Nil c v calm_def tenths_report_def)
  then show ?thesis by (simp add: save_metrics_def) (simp add: calm_def)
qed

theorem saved_average_is_rounded:
  "save_metrics ieee calm two_tenths ''performance_metrics.json'' =
     (None, [WriteFile ''performance_metrics.json'' tenths_report,
             Print (MetricsSaved ''performance_metrics.json'')]) \<and>
   history (cpu tenths_report) = [tenth, fifth] \<and>
   average (cpu tenths_report) = 1351079888211149 / 9007199254740992 \<and>
   arithmetic_mean (history (cpu tenths_report)) = 10808639105689191 / 72057594037927936 \<and>
   average (cpu tenths_report) \<noteq> arithmetic_mean (history (cpu tenths_report))"
proof -
  have h: "history (cpu tenths_report) = [tenth, fifth]"
    "average (cpu tenths_report) = 1351079888211149 / 9007199254740992"
    by (simp_all add: tenths_report_def)
  have m: "arithmetic_mean [tenth, fifth] = 10808639105689191 / 72057594037927936"
    by (simp add: arithmetic_mean_def tenth_def fifth_def)
  show ?thesis by (simp add: save_two_tenths h m)
qed

text \<open>
  Claim C7, as the code has it. In every snapshot that \<^verbatim>\<open>save_metrics\<close> writes with a
  non-empty cpu history, the stored cpu history is the history of the monitor, the
  stored average is the float mean of that stored history, and the stored peak is its
  maximum. In an arithmetic that is accurate to the unit roundoff \<open>u\<close>, the stored
  average equals the arithmetic mean of the stored history to within the
  floating-point tolerance.
\<close>

theorem saved_average_is_mean_of_saved_history:
  assumes "save_metrics ar env m f = (r, out)" and "WriteFile f' d \<in> set out"
    and "history (cpu d) \<noteq> []"
  shows "history (cpu d) = cpu_history m \<and>
         average (cpu d) = float_mean ar (history (cpu d)) \<and>
         peak (cpu d) = Max (set (history (cpu d))) \<and>
         (accurate u ar \<longrightarrow>
            \<bar>average (cpu d) - arithmetic_mean (history (cpu d))\<bar> \<le>
              tolerance u (history (cpu d)))"
proof -
  from save_metrics_cases [OF assms(1)] assms(2)
  have bd: "build_data ar env m = Inr d" by auto
  from build_data_Inr [OF bd]
  have st: "stats_of ar (float_sum ar) (cpu_history m) = Inr (cpu d)" by simp
  from stats_of_total [of ar "float_sum ar" "cpu_history m"] st
  have h: "history (cpu d) = cpu_history m" by auto
  with assms(3) have ne: "cpu_history m \<noteq> []" by simp
  from stats_of_nonempty [OF ne, of ar "float_sum ar"] st
  have "cpu d = \<lparr>history = cpu_history m,
                 average = true_div ar (float_sum ar (cpu_history m))
                             (of_nat (length (cpu_history m))),
                 peak = Max (set (cpu_history m))\<rparr>" by simp
  then have a: "average (cpu d) = float_mean ar (cpu_history m)"
    and p: "peak (cpu d) = Max (set (cpu_history m))"
    by (simp_all add: float_mean_def)
  have "\<bar>average (cpu d) - arithmetic_mean (history (cpu d))\<bar> \<le> tolerance u (history (cpu d))"
    if "accurate u ar"
    using float_mean_tolerance [OF that ne] a h by simp
  with h a p show ?thesis by simp
qed

lemma four_samples_sel:
  "process four_samples = Some rusty" "thresholds four_samples = default_thresholds"
  "cpu_history four_samples = [10, 30, 5, 40]" "memory_history four_samples = []"
  "thread_count_history four_samples = []" "time_history four_samples = []"
  "pid four_samples = Some 7"
  by (simp_all add: four_samples_def started_def init_fields_def)

lemma save_four:
  "save_metrics ieee calm four_samples f =
     (None, [WriteFile f four_report, Print (MetricsSaved f)])"
proof -
  have c: "stats_of ieee (float_sum ieee) [10, 30, 5, 40] =
             Inr \<lparr>history = [10, 30, 5, 40], average = 85 / 4, peak = 40\<rparr>"
    by (simp add: stats_of_def py_max_def py_truediv_def ieee_values)
  have v: "get_threshold_violations four_samples =
             \<lparr>cpu_exceeded = 2, memory_exceeded = 0, thread_exceeded = 0\<rparr>"
    by (simp add: get_threshold_violations_def count_exceeding_def py_sum_def four_samples_sel
        default_thresholds_def)
  have "build_data ieee calm four_samples = Inr four_report"
    by (simp add: build_data_def four_samples_sel stats_of_Nil c v calm_def four_report_def)
  then show ?thesis by (simp add: save_metrics_def) (simp add: calm_def)
qed

theorem saved_average_is_mean_of_saved_history_witness:
  "save_metrics ieee calm four_samples ''m.json'' =
     (None, [WriteFile ''m.json'' four_report, Print (MetricsSaved ''m.json'')]) \<and>
   accurate (1 / 2 ^ 53) ieee \<and>
   history (cpu four_report) = [10, 30, 5, 40] \<and>
   average (cpu four_report) = 85 / 4 \<and>
   float_mean ieee (history (cpu four_report)) = 85 / 4 \<and>
   \<bar>average (cpu four_report) - arithmetic_mean (history (cpu four_report))\<bar> \<le>
     tolerance (1 / 2 ^ 53) (history (cpu four_report)) \<and>
   peak (cpu four_report) = 40 \<and> Max (set (history (cpu four_report))) = 40"
proof -
  have w: "WriteFile ''m.json'' four_report \<in>
           set [WriteFile ''m.json'' four_report, Print (MetricsSaved ''m.json'')]" by simp
  have n: "history (cpu four_report) \<noteq> []" by (simp add: four_report_def)
  note c7 = saved_average_is_mean_of_saved_history [OF save_four w n, of "1 / 2 ^ 53"]
  have h: "history (cpu four_report) = [10, 30, 5, 40]" "average (cpu four_report) = 85 / 4"
    "peak (cpu four_report) = 40"
    by (simp_all add: four_report_def)
  from c7 have a: "average (cpu four_report) = float_mean ieee (history (cpu four_report))"
    and p: "peak (cpu four_report) = Max (set (history (cpu four_report)))"
    by blast+
  from c7 ieee_accurate
  have t: "\<bar>average (cpu four_report) - arithmetic_mean (history (cpu four_report))\<bar> \<le>
           tolerance (1 / 2 ^ 53) (history (cpu four_report))"
    by blast
  have fm: "float_mean ieee (history (cpu four_report)) = 85 / 4"
    by (simp only: a [symmetric] h(2))
  have mx: "Max (set (history (cpu four_report))) = 40"
    by (simp only: p [symmetric] h(3))
  show ?thesis
    by (intro conjI save_four ieee_accurate h fm t mx)
qed

section \<open>Trailing averages\<close>

lemma length_last10: "length (last10 xs) = min 10 (length xs)"
  by (simp add: last10_def)

lemma last10_all: "length xs \<le> 10 \<Longrightarrow> last10 xs = xs"
  by (simp add: last10_def)

lemma mean_last10_full:
  "10 \<le> length xs \<Longrightarrow>
   true_div ar (float_sum ar (last10 xs)) 10 = float_mean ar (last10 xs)"
  by (simp add: float_mean_def length_last10)

lemma find_process_prints:
  "find_process os m = (r, m', out) \<Longrightarrow> ev \<in> set out \<Longrightarrow> \<exists>l. ev = Print l"
  by (auto simp add: find_process_def split: option.splits if_splits sum.splits)

lemma check_thresholds_prints: "ev \<in> set (check_thresholds m ms) \<Longrightarrow> \<exists>l. ev = Print l"
  by (auto simp add: check_thresholds_def split: if_splits)

lemma sample_prints:
  assumes "sample ar m p = (r, m', out)" and "ev \<in> set out"
  shows "\<exists>l. ev = Print l"
  using assms(1)
proof (cases rule: sample_cases)
  case (sampled ms)
  with assms(2) check_thresholds_prints show ?thesis by blast
next
  case (cut ms k)
  with assms(2) show ?thesis by simp
next
  case (caught e)
  with assms(2) show ?thesis by simp
next
  case (raised e)
  with assms(2) show ?thesis by simp
qed

lemma collect_metrics_prints:
  assumes "collect_metrics ar m p = (r, m', out)" and "ev \<in> set out"
  shows "\<exists>l. ev = Print l"
  using assms(1)
proof (cases rule: collect_metrics_split)
  case (stopped e)
  from find_process_prints [OF stopped(2) assms(2)] show ?thesis .
next
  case (went_on m1 out1 out2)
  show ?thesis
  proof (cases "process m \<noteq> None \<and> running p")
    case True
    with went_on have "out = out2" by simp
    with sample_prints [OF went_on(5)] assms(2) show ?thesis by simp
  next
    case False
    obtain e1 m1' out1' where fp: "find_process (view p) m = (e1, m1', out1')"
      by (cases "find_process (view p) m") auto
    from False have t: "process m = None \<or> \<not> running p" by auto
    from assms(1) collect_metrics_refind [OF t, of ar] fp
    have "\<exists>r2 m2 o2. e1 = None \<and> sample ar m1' p = (r2, m2, o2) \<and> out = out1' @ o2 \<or>
            (\<exists>e. e1 = Some e \<and> out = out1')"
      by (cases e1; cases "sample ar m1' p") auto
    then show ?thesis
      using find_process_prints [OF fp] sample_prints assms(2) by fastforce
  qed
qed

lemma py_truediv_Inr: "py_truediv ar a b = Inr q \<Longrightarrow> b \<noteq> 0 \<and> q = true_div ar a b"
  by (auto simp add: py_truediv_def split: if_splits)

lemma animate_draws:
  assumes "animate ar m p = (r, m', out)" and "Draw c \<in> set out"
  shows "chart_avg_cpu c = float_mean ar (last10 (cpu_history m')) \<and>
         chart_avg_memory c = float_mean ar (last10 (memory_history m'))"
proof -
  obtain r1 m1 out1 where c: "collect_metrics ar m p = (r1, m1, out1)"
    by (cases "collect_metrics ar m p") auto
  have nodraw: "Draw c \<notin> set out1"
    using collect_metrics_prints [OF c, of "Draw c"] by auto
  show ?thesis
  proof (cases r1)
    case (Inl e)
    with c assms(1) have "out = out1" by (simp add: animate_def)
    with nodraw assms(2) show ?thesis by simp
  next
    case (Inr mo)
    show ?thesis
    proof (cases mo)
      case None
      with Inr c assms(1) have "out = out1" by (simp add: animate_def)
      with nodraw assms(2) show ?thesis by simp
    next
      case (Some ms)
      show ?thesis
      proof (cases "py_truediv ar (float_sum ar (last10 (cpu_history m1)))
                      (of_nat (min 10 (length (cpu_history m1))))")
        case (Inl e)
        with Some Inr c assms(1) have "out = out1" by (simp add: animate_def)
        with nodraw assms(2) show ?thesis by simp
      next
        case ac: (Inr avg_cpu)
        show ?thesis
        proof (cases "py_truediv ar (float_sum ar (last10 (memory_history m1)))
                      (of_nat (min 10 (length (memory_history m1))))")
          case (Inl e)
          with ac Some Inr c assms(1) have "out = out1" by (simp add: animate_def)
          with nodraw assms(2) show ?thesis by simp
        next
          case am: (Inr avg_memory)
          from am ac Some Inr c assms(1)
          have o: "out = out1 @ [Draw \<lparr>chart_cpu = cpu_percent ms, chart_memory = memory_mb ms,
                             chart_threads = thread_count ms, chart_handles = handle_count ms,
                             chart_avg_cpu = avg_cpu, chart_avg_memory = avg_memory\<rparr>]"
            and m': "m' = m1"
            by (simp_all add: animate_def)
          from o nodraw assms(2)
          have cc: "chart_avg_cpu c = avg_cpu" "chart_avg_memory c = avg_memory" by auto
          from py_truediv_Inr [OF ac] py_truediv_Inr [OF am] cc m'
          show ?thesis
            by (simp add: float_mean_def length_last10)
        qed
      qed
    qed
  qed
qed

lemma animate_reading:
  "animate ieee started (reading 30) =
     (None, update_history started (reading_of 30) 5, [Print (HighCPU 30 25), Draw first_chart])"
  by (simp add: animate_def collect_reading)
     (simp add: update_history_eq started_sel deque_append_def last10_def
        py_truediv_def reading_of_def first_chart_def ieee_values)

text \<open>
  With one sample in the history, \<^verbatim>\<open>print_metrics\<close> prints the timestamp and the
  status line and no averages.
\<close>

theorem short_history_omits_averages:
  "length (cpu_history (update_history started (reading_of 30) 5)) = 1 \<and>
   print_metrics ieee (update_history started (reading_of 30) 5) (Some (reading_of 30)) =
     [Print (TimestampLine ''now''), Print (StatusLine 30 2 1 4 0)]"
  by (simp add: print_metrics_def update_history_eq started_sel deque_append_def reading_of_def)

text \<open>
  Claim C6, as the code has it. \<^verbatim>\<open>print_metrics\<close> prints the averages of the last ten
  samples once the histories hold at least ten entries, and with fewer than ten it
  prints the status line without averages (and does not fail). The summary drawn by
  \<^verbatim>\<open>plot_realtime\<close> shows the mean of the last ten entries, which are all the entries
  when there are at most ten. Each average is the float mean of its entries, which is
  the arithmetic mean to within the floating-point tolerance.
\<close>

theorem trailing_averages_as_rendered:
  "(10 \<le> length (cpu_history m) \<and> 10 \<le> length (memory_history m) \<longrightarrow>
      print_metrics ar m (Some ms) =
        [Print (TimestampLine (timestamp ms)),
         Print (StatusLine (cpu_percent ms) (memory_mb ms) (memory_percent ms)
                  (thread_count ms) (handle_count ms)),
         Print (AverageLine (float_mean ar (last10 (cpu_history m)))
                  (float_mean ar (last10 (memory_history m))))]) \<and>
   (length (cpu_history m) < 10 \<longrightarrow>
      print_metrics ar m (Some ms) =
        [Print (TimestampLine (timestamp ms)),
         Print (StatusLine (cpu_percent ms) (memory_mb ms) (memory_percent ms)
                  (thread_count ms) (handle_count ms))]) \<and>
   (animate ar m p = (r, m', out) \<and> Draw c \<in> set out \<longrightarrow>
      chart_avg_cpu c = float_mean ar (last10 (cpu_history m')) \<and>
      chart_avg_memory c = float_mean ar (last10 (memory_history m')) \<and>
      (length (cpu_history m') \<le> 10 \<longrightarrow> last10 (cpu_history m') = cpu_history m') \<and>
      (length (memory_history m') \<le> 10 \<longrightarrow> last10 (memory_history m') = memory_history m')) \<and>
   (accurate u ar \<and> xs \<noteq> [] \<longrightarrow>
      \<bar>float_mean ar xs - arithmetic_mean xs\<bar> \<le> tolerance u xs)"
proof -
  have a: "print_metrics ar m (Some ms) =
        [Print (TimestampLine (timestamp ms)),
         Print (StatusLine (cpu_percent ms) (memory_mb ms) (memory_percent ms)
                  (thread_count ms) (handle_count ms)),
         Print (AverageLine (float_mean ar (last10 (cpu_history m)))
                  (float_mean ar (last10 (memory_history m))))]"
    if "10 \<le> length (cpu_history m) \<and> 10 \<le> length (memory_history m)"
    using that by (simp add: print_metrics_def mean_last10_full)
  have b: "print_metrics ar m (Some ms) =
        [Print (TimestampLine (timestamp ms)),
         Print (StatusLine (cpu_percent ms) (memory_mb ms) (memory_percent ms)
                  (thread_count ms) (handle_count ms))]"
    if "length (cpu_history m) < 10"
    using that by (simp add: print_metrics_def)
  have c: "chart_avg_cpu c = float_mean ar (last10 (cpu_history m')) \<and>
      chart_avg_memory c = float_mean ar (last10 (memory_history m'))"
    if "animate ar m p = (r, m', out) \<and> Draw c \<in> set out"
    using that animate_draws [of ar m p r m' out c] by simp
  have d: "\<bar>float_mean ar xs - arithmetic_mean xs\<bar> \<le> tolerance u xs"
    if "accurate u ar \<and> xs \<noteq> []"
    using that float_mean_tolerance [of u ar xs] by simp
  from a b c d show ?thesis by (simp add: last10_all)
qed

theorem trailing_averages_as_rendered_witness:
  "10 \<le> length (cpu_history ten_samples) \<and> 10 \<le> length (memory_history ten_samples) \<and>
   print_metrics ieee ten_samples (Some (reading_of 30)) =
     [Print (TimestampLine ''now''), Print (StatusLine 30 2 1 4 0), Print (AverageLine 12 2)] \<and>
   length (cpu_history started) < 10 \<and>
   print_metrics ieee started (Some (reading_of 30)) =
     [Print (TimestampLine ''now''), Print (StatusLine 30 2 1 4 0)] \<and>
   animate ieee started (reading 30) =
     (None, update_history started (reading_of 30) 5, [Print (HighCPU 30 25), Draw first_chart]) \<and>
   Draw first_chart \<in> set [Print (HighCPU 30 25), Draw first_chart] \<and>
   chart_avg_cpu first_chart = 30 \<and>
   float_mean ieee (cpu_history (update_history started (reading_of 30) 5)) = 30 \<and>
   accurate (1 / 2 ^ 53) ieee \<and>
   \<bar>float_mean ieee [10, 30, 5, 40] - arithmetic_mean [10, 30, 5, 40]\<bar> \<le>
     tolerance (1 / 2 ^ 53) [10, 30, 5, 40]"
proof -
  have l: "10 \<le> length (cpu_history ten_samples) \<and> 10 \<le> length (memory_history ten_samples)"
    by (simp add: ten_samples_def)
  have s: "length (cpu_history started) < 10" by (simp add: started_sel)
  have d: "Draw first_chart \<in> set [Print (HighCPU 30 25), Draw first_chart]" by simp
  have h: "cpu_history (update_history started (reading_of 30) 5) = [30]"
    by (simp add: update_history_eq started_sel deque_append_def reading_of_def)
  have m10: "float_mean ieee (last10 (cpu_history ten_samples)) = 12"
    "float_mean ieee (last10 (memory_history ten_samples)) = 2"
    by (simp_all add: ten_samples_def float_mean_def last10_def ieee_values)
  have f: "timestamp (reading_of 30) = ''now''" "cpu_percent (reading_of 30) = 30"
    "memory_mb (reading_of 30) = 2" "memory_percent (reading_of 30) = 1"
    "thread_count (reading_of 30) = 4" "handle_count (reading_of 30) = 0"
    by (simp_all add: reading_of_def)
  have c: "chart_avg_cpu first_chart = 30" by (simp add: first_chart_def)
  note t1 = trailing_averages_as_rendered [of ten_samples ieee "reading_of 30"]
  note t2 = trailing_averages_as_rendered [of started ieee "reading_of 30" "reading 30" None
                 "update_history started (reading_of 30) 5"
                 "[Print (HighCPU 30 25), Draw first_chart]" first_chart
                 "1 / 2 ^ 53" "[10, 30, 5, 40]"]
  from t1 l have p1: "print_metrics ieee ten_samples (Some (reading_of 30)) =
     [Print (TimestampLine ''now''), Print (StatusLine 30 2 1 4 0), Print (AverageLine 12 2)]"
    by (simp add: m10 f)
  from t2 s have p2: "print_metrics ieee started (Some (reading_of 30)) =
     [Print (TimestampLine ''now''), Print (StatusLine 30 2 1 4 0)]"
    by (simp add: f)
  from t2 animate_reading d have "chart_avg_cpu first_chart =
      float_mean ieee (last10 (cpu_history (update_history started (reading_of 30) 5))) \<and>
      last10 (cpu_history (update_history started (reading_of 30) 5)) =
        cpu_history (update_history started (reading_of 30) 5)"
    by (simp add: h)
  then have p3: "float_mean ieee (cpu_history (update_history started (reading_of 30) 5)) = 30"
    using c by metis
  from t2 ieee_accurate
  have p4: "\<bar>float_mean ieee [10, 30, 5, 40] - arithmetic_mean [10, 30, 5, 40]\<bar> \<le>
     tolerance (1 / 2 ^ 53) [10, 30, 5, 40]"
    by blast
  show ?thesis
    by (intro conjI l [THEN conjunct1] l [THEN conjunct2] p1 s p2 animate_reading d c p3
        ieee_accurate p4)
qed

section \<open>The end of a run\<close>

lemma collect_interrupted:
  "collect_metrics ieee started (tick_probe interrupted) = (Inl KeyboardInterrupt, started, [])"
  by (simp add: collect_metrics_def sample_def read_metrics_def interrupted_def reading_def
      started_sel)

lemma finalize_empty:
  "cpu_history m = [] \<Longrightarrow> save_metrics ar env m (arg_output a) = (None, out) \<Longrightarrow>
   finalize ar a env m raised =
     (Some ZeroDivisionError,
      (if raised = Some KeyboardInterrupt then [Print StoppedByUser] else []) @ out @
      [Print SummaryHeader])"
  by (simp add: finalize_def print_summary_empty Let_def)

text \<open>
  Claim C3. A run of \<^verbatim>\<open>main\<close> with duration 0 that is interrupted during its first
  sampling has recorded nothing. Its \<^verbatim>\<open>finally\<close> block saves a snapshot whose sample
  count \<^verbatim>\<open>monitoring_duration\<close> is 0; the summary then divides by the length of the
  empty cpu history, and the program ends with ZeroDivisionError after the header of
  the summary.
\<close>

theorem zero_sample_run_saves_then_crashes:
  "main console zero_sample_run =
     Some (Some ZeroDivisionError,
           [Print (FoundProcess 7), Print StoppedByUser,
            WriteFile ''performance_metrics.json'' empty_report,
            Print (MetricsSaved ''performance_metrics.json''),
            Print SummaryHeader]) \<and>
   monitoring_duration empty_report = 0"
proof -
  have a: "benchmark console = False" "plot console = False" "arg_pid console = None"
    "arg_output console = ''performance_metrics.json''"
    by (simp_all add: console_def)
  have w: "startup zero_sample_run = one_rusty" "ticks zero_sample_run = [interrupted]"
    "at_exit zero_sample_run = calm" "float_ops zero_sample_run = ieee"
    by (simp_all add: zero_sample_run_def)
  have l: "console_loop ieee console started [interrupted] =
             Some (Some KeyboardInterrupt, started, [])"
    by (simp add: collect_interrupted)
  have f: "finalize ieee console calm started (Some KeyboardInterrupt) =
     (Some ZeroDivisionError,
      [Print StoppedByUser, WriteFile ''performance_metrics.json'' empty_report,
       Print (MetricsSaved ''performance_metrics.json''), Print SummaryHeader])"
    using finalize_empty [of started ieee calm console _ "Some KeyboardInterrupt"]
    by (simp add: started_sel a save_started)
  have "monitoring_duration empty_report = 0" by (simp add: empty_report_def)
  then show ?thesis by (simp add: main_def a w started_ok l f del: console_loop.simps)
qed

text \<open>In console mode, a tick at which the duration has elapsed or the sleep is
  interrupted ends the loop, and a run that ends has called \<^verbatim>\<open>save_metrics\<close>.\<close>

lemma console_loop_ends:
  "\<exists>t\<in>set ts. ends_loop a t \<Longrightarrow> console_loop ar a m ts \<noteq> None"
proof (induction ts arbitrary: m)
  case Nil
  then show ?case by simp
next
  case (Cons t ts)
  obtain r m' out where c: "collect_metrics ar m (tick_probe t) = (r, m', out)"
    by (cases "collect_metrics ar m (tick_probe t)") auto
  show ?case
  proof (cases r)
    case (Inl e)
    with c show ?thesis by simp
  next
    case (Inr mo)
    show ?thesis
    proof (cases "ends_loop a t")
      case True
      with c Inr show ?thesis by (auto simp add: ends_loop_def Let_def)
    next
      case False
      with Cons.prems have "\<exists>t\<in>set ts. ends_loop a t" by simp
      from Cons.IH [OF this, of m'] obtain res where "console_loop ar a m' ts = Some res"
        by auto
      with c Inr show ?thesis by (cases res) (simp add: Let_def)
    qed
  qed
qed

lemma finalize_persists:
  assumes "finalize ar a env m raised = (r, out)"
  shows "(\<exists>d. WriteFile (arg_output a) d \<in> set out) \<or>
         (\<exists>e. r = Some e \<and> out = (if raised = Some KeyboardInterrupt
                                     then [Print StoppedByUser] else []) \<and>
               (name_read env = Inl e \<or> open_error env = Some e))"
proof -
  obtain r1 out1 where s: "save_metrics ar env m (arg_output a) = (r1, out1)"
    by (cases "save_metrics ar env m (arg_output a)") auto
  from save_metrics_cases [OF s] consider
      (saved) d where "r1 = None"
        "out1 = [WriteFile (arg_output a) d, Print (MetricsSaved (arg_output a))]"
    | (failed) e where "r1 = Some e" "out1 = []"
        "name_read env = Inl e \<or> open_error env = Some e"
    by blast
  then show ?thesis
  proof cases
    case saved
    obtain r2 out2 where ps: "print_summary ar m = (r2, out2)"
      by (cases "print_summary ar m") auto
    from assms s saved(1) ps
    have "out = (if raised = Some KeyboardInterrupt then [Print StoppedByUser] else []) @
                out1 @ out2"
      by (cases r2) (simp_all add: finalize_def Let_def)
    with saved(2) have "WriteFile (arg_output a) d \<in> set out" by simp
    then show ?thesis by blast
  next
    case failed
    with assms s have "r = Some e"
      "out = (if raised = Some KeyboardInterrupt then [Print StoppedByUser] else [])"
      by (simp_all add: finalize_def Let_def)
    with failed(3) show ?thesis by blast
  qed
qed

lemma console_run_calls_save_metrics:
  assumes "\<not> benchmark a" and "\<not> (plot a \<and> HAS_MATPLOTLIB w)"
    and "PerformanceMonitor (startup w) (arg_pid a) 100 = (None, m0, out0)"
  shows "((\<exists>t\<in>set (ticks w). ends_loop a t) \<longrightarrow> main a w \<noteq> None) \<and>
         (main a w = Some (r, evs) \<longrightarrow>
            (\<exists>d. WriteFile (arg_output a) d \<in> set evs) \<or>
            (\<exists>e. r = Some e \<and>
               (name_read (at_exit w) = Inl e \<or> open_error (at_exit w) = Some e)))"
proof -
  have m: "main a w =
     (case console_loop (float_ops w) a m0 (ticks w) of
        None \<Rightarrow> None
      | Some (r, m', out') \<Rightarrow>
          (case finalize (float_ops w) a (at_exit w) m' r of
             (r', out'') \<Rightarrow> Some (r', out0 @ out' @ out'')))"
    using assms by (auto simp add: main_def)
  have a: "main a w \<noteq> None" if "\<exists>t\<in>set (ticks w). ends_loop a t"
  proof -
    from console_loop_ends [OF that, of "float_ops w" m0]
    obtain res where "console_loop (float_ops w) a m0 (ticks w) = Some res"
      by auto
    then show ?thesis by (simp add: m split: prod.splits)
  qed
  have b: "(\<exists>d. WriteFile (arg_output a) d \<in> set evs) \<or>
            (\<exists>e. r = Some e \<and>
               (name_read (at_exit w) = Inl e \<or> open_error (at_exit w) = Some e))"
    if ret: "main a w = Some (r, evs)"
  proof -
    from ret m obtain r1 m1 out1
      where l: "console_loop (float_ops w) a m0 (ticks w) = Some (r1, m1, out1)"
      by (cases "console_loop (float_ops w) a m0 (ticks w)") auto
    obtain r2 out2 where f: "finalize (float_ops w) a (at_exit w) m1 r1 = (r2, out2)"
      by (cases "finalize (float_ops w) a (at_exit w) m1 r1") auto
    from ret m l f have e: "r = r2" "evs = out0 @ out1 @ out2" by simp_all
    from finalize_persists [OF f] e show ?thesis by auto
  qed
  from a b show ?thesis by blast
qed

text \<open>The two runs of claim C8: the chart closed after one frame, and the process lost
  at the second tick of the console loop.\<close>

lemma one_sample_sel:
  "process one_sample = Some rusty" "thresholds one_sample = default_thresholds"
  "history_size one_sample = 100" "cpu_history one_sample = [30]" "memory_history one_sample = [2]"
  "thread_count_history one_sample = [4]" "handle_count_history one_sample = [0]"
  "time_history one_sample = [5]" "pid one_sample = Some 7"
  by (simp_all add: one_sample_def update_history_eq started_sel deque_append_def reading_of_def)

lemma collect_lost:
  "collect_metrics ieee one_sample (tick_probe lost) =
     (Inl (SystemExit 1), one_sample, [Print (ErrorNoPid 7)])"
  by (simp add: collect_metrics_def lost_def reading_def find_process_def one_sample_sel
      nothing_there_def)

lemma save_dead_handle:
  "process m \<noteq> None \<Longrightarrow> save_metrics ar dead_handle m f = (Some NoSuchProcess, [])"
  by (auto simp add: save_metrics_def build_data_def dead_handle_def)

text \<open>
  Claim C8. Two runs of \<^verbatim>\<open>main\<close> end without a saved summary. With \<^verbatim>\<open>--plot\<close> and
  matplotlib present, the run draws its frames and returns when the window is closed:
  \<^verbatim>\<open>save_metrics\<close> is never called. In console mode, when the process is lost after
  one sample, \<^verbatim>\<open>_find_process\<close> exits, the \<^verbatim>\<open>finally\<close> block calls
  \<^verbatim>\<open>save_metrics\<close>, reading the name of the dead process raises NoSuchProcess there,
  and the program ends with that exception: nothing is written, no summary is printed.
\<close>

theorem runs_end_without_saved_summary:
  "main charting chart_run =
     Some (None, [Print (FoundProcess 7), Print (HighCPU 30 25), Draw first_chart]) \<and>
   main console lost_run =
     Some (Some NoSuchProcess,
           [Print (FoundProcess 7), Print (HighCPU 30 25), Print (TimestampLine ''now''),
            Print (StatusLine 30 2 1 4 0), Print (ErrorNoPid 7)])"
proof -
  have a: "benchmark charting = False" "plot charting = True" "arg_pid charting = None"
    "benchmark console = False" "plot console = False" "arg_pid console = None"
    "arg_output console = ''performance_metrics.json''" "duration console = 0"
    by (simp_all add: charting_def console_def)
  have w: "startup chart_run = one_rusty" "frames chart_run = [reading 30]"
    "HAS_MATPLOTLIB chart_run = True" "float_ops chart_run = ieee"
    "startup lost_run = one_rusty" "at_exit lost_run = dead_handle" "float_ops lost_run = ieee"
    "ticks lost_run = [\<lparr>tick_probe = reading 30, elapsed = 1, sleep_interrupted = False\<rparr>, lost]"
    by (simp_all add: chart_run_def lost_run_def)
  have c: "main charting chart_run =
     Some (None, [Print (FoundProcess 7), Print (HighCPU 30 25), Draw first_chart])"
    by (simp add: main_def a w started_ok plot_realtime_def animate_reading)
  have p: "print_metrics ieee one_sample (Some (reading_of 30)) =
             [Print (TimestampLine ''now''), Print (StatusLine 30 2 1 4 0)]"
    by (simp add: print_metrics_def one_sample_sel reading_of_def)
  have l: "console_loop ieee console started
             [\<lparr>tick_probe = reading 30, elapsed = 1, sleep_interrupted = False\<rparr>, lost] =
           Some (Some (SystemExit 1), one_sample,
                 [Print (HighCPU 30 25), Print (TimestampLine ''now''),
                  Print (StatusLine 30 2 1 4 0), Print (ErrorNoPid 7)])"
    by (simp add: collect_reading one_sample_def [symmetric] collect_lost p a)
  have f: "finalize ieee console dead_handle one_sample (Some (SystemExit 1)) =
             (Some NoSuchProcess, [])"
    by (simp add: finalize_def save_dead_handle one_sample_sel)
  have "main console lost_run =
     Some (Some NoSuchProcess,
           [Print (FoundProcess 7), Print (HighCPU 30 25), Print (TimestampLine ''now''),
            Print (StatusLine 30 2 1 4 0), Print (ErrorNoPid 7)])"
    by (simp add: main_def a w started_ok l f del: console_loop.simps)
  with c show ?thesis by simp
qed

end
